theory Spec2Isabelle
  imports Main "HOL-Library.Char_ord" "HOL-Library.List_Lexorder" "HOL-Library.Multiset"
begin

section \<open>Python strings\<close>

text \<open>
  The module handles text only through a few methods of Python's \<open>str\<close>. The
  parameters of the module and the names on the device are strings of characters with
  code points below 256; \<open>sorted\<close> on a list of strings is \<^const>\<open>sort\<close> under the
  lexicographic order of the code points. The hostname validation, whose regular
  expression tells characters beyond that range apart, reads a text as the list of its
  code points, so that it is modelled for every Python 3 string: \<open>code_point\<close> is
  \<open>ord\<close> of a character and \<open>codes\<close> the code points of a string.
\<close>

definition code_point :: "char \<Rightarrow> int" where
  "code_point c = of_char c"

definition codes :: "string \<Rightarrow> int list" where
  "codes s = map code_point s"

text \<open>\<open>str.isspace\<close> on one character, for the code points below 256.\<close>

definition isspace :: "char \<Rightarrow> bool" where
  "isspace c = (c \<in> set [CHR 0x09, CHR 0x0A, CHR 0x0B, CHR 0x0C, CHR 0x0D,
                          CHR 0x1C, CHR 0x1D, CHR 0x1E, CHR 0x1F, CHR 0x20,
                          CHR 0x85, CHR 0xA0])"

text \<open>\<open>s.strip()\<close>: leading and trailing whitespace removed.\<close>

definition str_strip :: "string \<Rightarrow> string" where
  "str_strip s = rev (dropWhile isspace (rev (dropWhile isspace s)))"

text \<open>\<open>s.rstrip(c)\<close> for a one-character argument: every trailing \<open>c\<close> removed. The
  characters are of any type, so that the function serves strings and lists of code
  points alike; so does \<open>str_split\<close>.\<close>

definition str_rstrip :: "'a \<Rightarrow> 'a list \<Rightarrow> 'a list" where
  "str_rstrip c s = rev (dropWhile (\<lambda>x. x = c) (rev s))"

text \<open>\<open>s.split(sep)\<close> for a one-character separator: one more part than separators.\<close>

fun str_split :: "'a \<Rightarrow> 'a list \<Rightarrow> 'a list list" where
  "str_split sep [] = [[]]"
| "str_split sep (c # cs) =
     (if c = sep then [] # str_split sep cs
      else (case str_split sep cs of
              [] \<Rightarrow> [[c]]
            | w # ws \<Rightarrow> (c # w) # ws))"

text \<open>\<open>s.startswith(c)\<close> for a one-character prefix.\<close>

definition startswith :: "string \<Rightarrow> char \<Rightarrow> bool" where
  "startswith s c = (case s of [] \<Rightarrow> False | x # _ \<Rightarrow> x = c)"

section \<open>Exceptions\<close>

text \<open>
  \<open>F5ModuleError\<close> is the module's own error; \<open>main\<close> turns it into a failure message.
  \<open>iControlUnexpectedHTTPError\<close> is what the device client raises; \<open>exec_module\<close> wraps it
  as an \<open>F5ModuleError\<close>. Every other exception leaves the module as it is raised.
\<close>

datatype exn =
    F5ModuleError string
  | ValueError
  | TypeError
  | AddrFormatError
  | iControlUnexpectedHTTPError string

section \<open>Hostname validation (\<open>ModuleParameters.is_valid_hostname\<close>)\<close>

text \<open>The code points of the newline, the hyphen and the dot.\<close>

definition newline :: int where
  "newline = 10"

definition hyphen :: int where
  "hyphen = 45"

definition dot :: int where
  "dot = 46"

text \<open>The ASCII letters, the digits and the hyphen.\<close>

definition ldh_ascii :: "int \<Rightarrow> bool" where
  "ldh_ascii c = ((65 \<le> c \<and> c \<le> 90) \<or> (97 \<le> c \<and> c \<le> 122) \<or> (48 \<le> c \<and> c \<le> 57)
                  \<or> c = hyphen)"

text \<open>
  The character class \<open>[A-Z0-9-]\<close> under \<open>re.IGNORECASE\<close>, on a Python 3 string: beside
  the ASCII letters, the digits and the hyphen it matches the four characters that
  case-insensitive matching folds to an ASCII letter, U+0130, U+0131, U+017F and U+212A.
\<close>

definition case_folded :: "int list" where
  "case_folded = [304, 305, 383, 8490]"

definition ldh :: "int \<Rightarrow> bool" where
  "ldh c = (ldh_ascii c \<or> c \<in> set case_folded)"

text \<open>
  The anchor \<open>$\<close> without \<open>re.MULTILINE\<close>: the end of the text, or the position just
  before a newline that ends the text.
\<close>

definition at_end :: "int list \<Rightarrow> bool" where
  "at_end r = (r = [] \<or> r = [newline])"

text \<open>
  \<open>allowed.match(x)\<close> for \<open>allowed = re.compile(r'(?!-)[A-Z0-9-]{1,63}(?<!-)$', re.IGNORECASE)\<close>:
  the next character is not a hyphen; then for some count \<open>n\<close> from 1 to 63 the first
  \<open>n\<close> characters are in the class, the character before position \<open>n\<close> is not a hyphen and
  \<open>$\<close> holds at position \<open>n\<close>.
\<close>

definition allowed_match :: "int list \<Rightarrow> bool" where
  "allowed_match x =
     (take 1 x \<noteq> [hyphen] \<and>
      list_ex (\<lambda>n. n \<le> length x \<and> list_all ldh (take n x) \<and>
                    last (take n x) \<noteq> hyphen \<and> at_end (drop n x)) [1..<64])"

definition is_valid_hostname :: "int list \<Rightarrow> bool" where
  "is_valid_hostname host =
     (if length host > 255 then False
      else list_all allowed_match (str_split dot (str_rstrip dot host)))"

text \<open>The message of the error \<open>fqdns\<close> raises for a hostname that fails the validation.\<close>

definition hostname_error :: "string \<Rightarrow> exn" where
  "hostname_error x = F5ModuleError (''The hostname '' @ [CHR 0x27] @ x @ [CHR 0x27] @ '' looks invalid.'')"

text \<open>
  The loop of \<open>ModuleParameters.fqdns\<close>: the first invalid entry raises. An entry is a
  string of the module; the validation reads its code points.
\<close>

fun fqdns_loop :: "string list \<Rightarrow> string list \<Rightarrow> exn + string list" where
  "fqdns_loop result [] = Inr result"
| "fqdns_loop result (x # xs) =
     (if is_valid_hostname (codes x) then fqdns_loop (result @ [x]) xs
      else Inl (hostname_error x))"

definition MP_fqdns :: "string list option \<Rightarrow> exn + string list option" where
  "MP_fqdns v =
     (case v of
        None \<Rightarrow> Inr None
      | Some xs \<Rightarrow>
          (case fqdns_loop [] xs of
             Inl e \<Rightarrow> Inl e
           | Inr result \<Rightarrow> Inr (Some (sort result))))"

text \<open>
  The hostname rule in the words of the specification, for comparison with
  \<^const>\<open>is_valid_hostname\<close>: one trailing dot is removed, the rest is at most 255
  characters long, and every label between dots has 1 to 63 letters, digits and hyphens,
  with no hyphen first or last.
\<close>

definition spec_label_ok :: "int list \<Rightarrow> bool" where
  "spec_label_ok l =
     (1 \<le> length l \<and> length l \<le> 63 \<and> list_all ldh_ascii l \<and> hd l \<noteq> hyphen \<and> last l \<noteq> hyphen)"

definition spec_valid_hostname :: "int list \<Rightarrow> bool" where
  "spec_valid_hostname host =
     (let h = (if host \<noteq> [] \<and> last host = dot then butlast host else host)
      in length h \<le> 255 \<and> list_all spec_label_ok (str_split dot h))"

section \<open>IP addresses (\<open>netaddr\<close>)\<close>

text \<open>
  \<open>netaddr\<close> is a third-party library. An \<open>IPAddress\<close> object is its version (4 or 6)
  and its integer value, which is all the module reads of it: \<open>start.version\<close>,
  \<open>start > stop\<close> and \<open>str(start)\<close>.
\<close>

record ipaddr =
  version :: nat
  ip_value :: int

text \<open>
  \<open>a > b\<close> on two addresses compares their keys \<open>(version, value)\<close> as tuples.
\<close>

definition ip_gt :: "ipaddr \<Rightarrow> ipaddr \<Rightarrow> bool" where
  "ip_gt a b = (version a > version b \<or> (version a = version b \<and> ip_value a > ip_value b))"

text \<open>
  The two library functions the module calls are parameters of the model:
  \<open>IPAddress\<close> is the constructor \<open>netaddr.IPAddress(text)\<close>, which returns an address or
  raises (\<open>AddrFormatError\<close> for text that is no address), and \<open>ip_str\<close> is \<open>str\<close> of
  an address.
\<close>

record netaddr =
  IPAddress :: "string \<Rightarrow> exn + ipaddr"
  ip_str :: "ipaddr \<Rightarrow> string"

section \<open>Desired state (\<open>ModuleParameters\<close>)\<close>

text \<open>
  The module's parameters as the argument specification types them; \<open>None\<close> is a
  parameter the user did not supply. \<open>p_partition\<close> is \<open>want.partition\<close>, which the module
  reads through a property of the base class of the parameter classes; the base class is
  not among the sources, and the model takes the value of the property as given (it is
  the partition parameter without the slashes around it).
\<close>

record geo =
  country :: string
  region :: "string option"

datatype target = StatePresent | StateAbsent

record params =
  p_name :: string
  p_partition :: string
  p_description :: "string option"
  p_addresses :: "string list option"
  p_address_ranges :: "string list option"
  p_address_lists :: "string list option"
  p_fqdns :: "string list option"
  p_geo_locations :: "geo list option"
  p_state :: target
  check_mode :: bool

text \<open>
  The table \<open>country_iso_map\<close> that \<open>ModuleParameters.__init__\<close> builds, from country
  names to ISO codes, and \<open>choices_iso_codes\<close>, its values.
\<close>

definition country_iso_map :: "(string \<times> string) list" where
  "country_iso_map =
    [
     (''Afghanistan'', ''AF''),
     (''Albania'', ''AL''),
     (''Algeria'', ''DZ''),
     (''American Samoa'', ''AS''),
     (''Andorra'', ''AD''),
     (''Angola'', ''AO''),
     (''Anguilla'', ''AI''),
     (''Antarctica'', ''AQ''),
     (''Antigua and Barbuda'', ''AG''),
     (''Argentina'', ''AR''),
     (''Armenia'', ''AM''),
     (''Aruba'', ''AW''),
     (''Australia'', ''AU''),
     (''Austria'', ''AT''),
     (''Azerbaijan'', ''AZ''),
     (''Bahamas'', ''BS''),
     (''Bahrain'', ''BH''),
     (''Bangladesh'', ''BD''),
     (''Barbados'', ''BB''),
     (''Belarus'', ''BY''),
     (''Belgium'', ''BE''),
     (''Belize'', ''BZ''),
     (''Benin'', ''BJ''),
     (''Bermuda'', ''BM''),
     (''Bhutan'', ''BT''),
     (''Bolivia'', ''BO''),
     (''Bosnia and Herzegovina'', ''BA''),
     (''Botswana'', ''BW''),
     (''Brazil'', ''BR''),
     (''Brunei'', ''BN''),
     (''Bulgaria'', ''BG''),
     (''Burkina Faso'', ''BF''),
     (''Burundi'', ''BI''),
     (''Cameroon'', ''CM''),
     (''Canada'', ''CA''),
     (''Cape Verde'', ''CV''),
     (''Central African Republic'', ''CF''),
     (''Chile'', ''CL''),
     (''China'', ''CN''),
     (''Christmas Island'', ''CX''),
     (''Cocos Islands'', ''CC''),
     (''Colombia'', ''CO''),
     (''Cook Islands'', ''CK''),
     (''Costa Rica'', ''CR''),
     (''Cuba'', ''CU''),
     (''Curacao'', ''CW''),
     (''Cyprus'', ''CY''),
     (''Czech Republic'', ''CZ''),
     (''Democratic Republic of the Congo'', ''CD''),
     (''Denmark'', ''DK''),
     (''Djibouti'', ''DJ''),
     (''Dominica'', ''DM''),
     (''Dominican Republic'', ''DO''),
     (''Ecuador'', ''EC''),
     (''Egypt'', ''EG''),
     (''Eritrea'', ''ER''),
     (''Estonia'', ''EE''),
     (''Ethiopia'', ''ET''),
     (''Falkland Islands'', ''FK''),
     (''Faroe Islands'', ''FO''),
     (''Fiji'', ''FJ''),
     (''Finland'', ''FI''),
     (''France'', ''FR''),
     (''French Polynesia'', ''PF''),
     (''Gabon'', ''GA''),
     (''Gambia'', ''GM''),
     (''Georgia'', ''GE''),
     (''Germany'', ''DE''),
     (''Ghana'', ''GH''),
     (''Gilbraltar'', ''GI''),
     (''Greece'', ''GR''),
     (''Greenland'', ''GL''),
     (''Grenada'', ''GD''),
     (''Guam'', ''GU''),
     (''Guatemala'', ''GT''),
     (''Guernsey'', ''GG''),
     (''Guinea'', ''GN''),
     (''Guinea-Bissau'', ''GW''),
     (''Guyana'', ''GY''),
     (''Haiti'', ''HT''),
     (''Honduras'', ''HN''),
     (''Hong Kong'', ''HK''),
     (''Hungary'', ''HU''),
     (''Iceland'', ''IS''),
     (''India'', ''IN''),
     (''Indonesia'', ''ID''),
     (''Iran'', ''IR''),
     (''Iraq'', ''IQ''),
     (''Ireland'', ''IE''),
     (''Isle of Man'', ''IM''),
     (''Israel'', ''IL''),
     (''Italy'', ''IT''),
     (''Ivory Coast'', ''CI''),
     (''Jamaica'', ''JM''),
     (''Japan'', ''JP''),
     (''Jersey'', ''JE''),
     (''Jordan'', ''JO''),
     (''Kazakhstan'', ''KZ''),
     (''Laos'', ''LA''),
     (''Latvia'', ''LV''),
     (''Lebanon'', ''LB''),
     (''Lesotho'', ''LS''),
     (''Liberia'', ''LR''),
     (''Libya'', ''LY''),
     (''Liechtenstein'', ''LI''),
     (''Lithuania'', ''LT''),
     (''Luxembourg'', ''LU''),
     (''Macau'', ''MO''),
     (''Macedonia'', ''MK''),
     (''Madagascar'', ''MG''),
     (''Malawi'', ''MW''),
     (''Malaysia'', ''MY''),
     (''Maldives'', ''MV''),
     (''Mali'', ''ML''),
     (''Malta'', ''MT''),
     (''Marshall Islands'', ''MH''),
     (''Mauritania'', ''MR''),
     (''Mauritius'', ''MU''),
     (''Mayotte'', ''YT''),
     (''Mexico'', ''MX''),
     (''Micronesia'', ''FM''),
     (''Moldova'', ''MD''),
     (''Monaco'', ''MC''),
     (''Mongolia'', ''MN''),
     (''Montenegro'', ''ME''),
     (''Montserrat'', ''MS''),
     (''Morocco'', ''MA''),
     (''Mozambique'', ''MZ''),
     (''Myanmar'', ''MM''),
     (''Namibia'', ''NA''),
     (''Nauru'', ''NR''),
     (''Nepal'', ''NP''),
     (''Netherlands'', ''NL''),
     (''Netherlands Antilles'', ''AN''),
     (''New Caledonia'', ''NC''),
     (''New Zealand'', ''NZ''),
     (''Nicaragua'', ''NI''),
     (''Niger'', ''NE''),
     (''Nigeria'', ''NG''),
     (''Niue'', ''NU''),
     (''North Korea'', ''KP''),
     (''Northern Mariana Islands'', ''MP''),
     (''Norway'', ''NO''),
     (''Oman'', ''OM''),
     (''Pakistan'', ''PK''),
     (''Palau'', ''PW''),
     (''Palestine'', ''PS''),
     (''Panama'', ''PA''),
     (''Papua New Guinea'', ''PG''),
     (''Paraguay'', ''PY''),
     (''Peru'', ''PE''),
     (''Philippines'', ''PH''),
     (''Pitcairn'', ''PN''),
     (''Poland'', ''PL''),
     (''Portugal'', ''PT''),
     (''Puerto Rico'', ''PR''),
     (''Qatar'', ''QA''),
     (''Republic of the Congo'', ''CG''),
     (''Reunion'', ''RE''),
     (''Romania'', ''RO''),
     (''Russia'', ''RU''),
     (''Rwanda'', ''RW''),
     (''Saint Barthelemy'', ''BL''),
     (''Saint Helena'', ''SH''),
     (''Saint Kitts and Nevis'', ''KN''),
     (''Saint Lucia'', ''LC''),
     (''Saint Martin'', ''MF''),
     (''Saint Pierre and Miquelon'', ''PM''),
     (''Saint Vincent and the Grenadines'', ''VC''),
     (''Samoa'', ''WS''),
     (''San Marino'', ''SM''),
     (''Sao Tome and Principe'', ''ST''),
     (''Saudi Arabia'', ''SA''),
     (''Senegal'', ''SN''),
     (''Serbia'', ''RS''),
     (''Seychelles'', ''SC''),
     (''Sierra Leone'', ''SL''),
     (''Singapore'', ''SG''),
     (''Sint Maarten'', ''SX''),
     (''Slovakia'', ''SK''),
     (''Slovenia'', ''SI''),
     (''Solomon Islands'', ''SB''),
     (''Somalia'', ''SO''),
     (''South Africa'', ''ZA''),
     (''South Korea'', ''KR''),
     (''South Sudan'', ''SS''),
     (''Spain'', ''ES''),
     (''Sri Lanka'', ''LK''),
     (''Sudan'', ''SD''),
     (''Suriname'', ''SR''),
     (''Svalbard and Jan Mayen'', ''SJ''),
     (''Swaziland'', ''SZ''),
     (''Sweden'', ''SE''),
     (''Switzerland'', ''CH''),
     (''Syria'', ''SY''),
     (''Taiwan'', ''TW''),
     (''Tajikstan'', ''TJ''),
     (''Tanzania'', ''TZ''),
     (''Thailand'', ''TH''),
     (''Togo'', ''TG''),
     (''Tokelau'', ''TK''),
     (''Tonga'', ''TO''),
     (''Trinidad and Tobago'', ''TT''),
     (''Tunisia'', ''TN''),
     (''Turkey'', ''TR''),
     (''Turkmenistan'', ''TM''),
     (''Turks and Caicos Islands'', ''TC''),
     (''Tuvalu'', ''TV''),
     (''U.S. Virgin Islands'', ''VI''),
     (''Uganda'', ''UG''),
     (''Ukraine'', ''UA''),
     (''United Arab Emirates'', ''AE''),
     (''United Kingdom'', ''GB''),
     (''United States'', ''US''),
     (''Uruguay'', ''UY''),
     (''Uzbekistan'', ''UZ''),
     (''Vanuatu'', ''VU''),
     (''Vatican'', ''VA''),
     (''Venezuela'', ''VE''),
     (''Vietnam'', ''VN''),
     (''Wallis and Futuna'', ''WF''),
     (''Western Sahara'', ''EH''),
     (''Yemen'', ''YE''),
     (''Zambia'', ''ZM''),
     (''Zimbabwe'', ''ZW'')
    ]"

definition choices_iso_codes :: "string list" where
  "choices_iso_codes = map snd country_iso_map"

text \<open>\<open>ModuleParameters.addresses\<close>: every entry must construct an address; the result
  is the sorted list of the entries as given.\<close>

definition address_error :: "string \<Rightarrow> exn" where
  "address_error x = F5ModuleError (''Address '' @ x @ '' must be either an IPv4 or IPv6 address'')"

fun addresses_check :: "netaddr \<Rightarrow> string list \<Rightarrow> exn + unit" where
  "addresses_check na [] = Inr ()"
| "addresses_check na (x # xs) =
     (case IPAddress na x of
        Inl AddrFormatError \<Rightarrow> Inl (address_error x)
      | Inl e \<Rightarrow> Inl e
      | Inr _ \<Rightarrow> addresses_check na xs)"

definition MP_addresses :: "netaddr \<Rightarrow> string list option \<Rightarrow> exn + string list option" where
  "MP_addresses na v =
     (case v of
        None \<Rightarrow> Inr None
      | Some xs \<Rightarrow>
          (case addresses_check na xs of
             Inl e \<Rightarrow> Inl e
           | Inr _ \<Rightarrow> Inr (Some (sort xs))))"

text \<open>
  \<open>ModuleParameters.address_ranges\<close>. One pass of the loop body is \<open>range_item\<close>: the
  unpacking \<open>start, stop = address_range.split('-')\<close> raises \<open>ValueError\<close> unless the
  split has exactly two parts; both constructors run before the versions are compared.
\<close>

definition range_version_error :: exn where
  "range_version_error =
     F5ModuleError ''When specifying a range, IP addresses must be of the same type; IPv4 or IPv6.''"

definition range_item :: "netaddr \<Rightarrow> string \<Rightarrow> exn + string" where
  "range_item na address_range =
     (case str_split CHR ''-'' address_range of
        [start, stop] \<Rightarrow>
          (case IPAddress na (str_strip start) of
             Inl e \<Rightarrow> Inl e
           | Inr start \<Rightarrow>
               (case IPAddress na (str_strip stop) of
                  Inl e \<Rightarrow> Inl e
                | Inr stop \<Rightarrow>
                    if version start \<noteq> version stop then Inl range_version_error
                    else if ip_gt start stop then Inr (ip_str na stop @ ''-'' @ ip_str na start)
                    else Inr (ip_str na start @ ''-'' @ ip_str na stop)))
      | _ \<Rightarrow> Inl ValueError)"

fun ranges_loop :: "netaddr \<Rightarrow> string list \<Rightarrow> string list \<Rightarrow> exn + string list" where
  "ranges_loop na result [] = Inr result"
| "ranges_loop na result (x # xs) =
     (case range_item na x of
        Inl e \<Rightarrow> Inl e
      | Inr item \<Rightarrow> ranges_loop na (result @ [item]) xs)"

definition MP_address_ranges :: "netaddr \<Rightarrow> string list option \<Rightarrow> exn + string list option" where
  "MP_address_ranges na v =
     (case v of
        None \<Rightarrow> Inr None
      | Some xs \<Rightarrow>
          (case ranges_loop na [] xs of
             Inl e \<Rightarrow> Inl e
           | Inr result \<Rightarrow> Inr (Some (sort result))))"

text \<open>\<open>Parameters._fqdn_name\<close> and \<open>ModuleParameters.address_lists\<close>.\<close>

definition fqdn_name :: "string \<Rightarrow> string \<Rightarrow> string" where
  "fqdn_name part v = (if \<not> startswith v CHR ''/'' then ''/'' @ part @ ''/'' @ v else v)"

definition MP_address_lists :: "string \<Rightarrow> string list option \<Rightarrow> string list option" where
  "MP_address_lists part v =
     (case v of
        None \<Rightarrow> None
      | Some xs \<Rightarrow> Some (sort (map (fqdn_name part) xs)))"

text \<open>
  \<open>ModuleParameters.geo_locations\<close>: the country is used as it is given; the region is
  appended after a colon unless it is missing or blank.
\<close>

definition geo_item :: "geo \<Rightarrow> string" where
  "geo_item x =
     (case region x of
        None \<Rightarrow> country x
      | Some r \<Rightarrow> if str_strip r \<noteq> [] then country x @ '':'' @ r else country x)"

definition MP_geo_locations :: "geo list option \<Rightarrow> string list option" where
  "MP_geo_locations v =
     (case v of
        None \<Rightarrow> None
      | Some xs \<Rightarrow> Some (sort (map geo_item xs)))"

section \<open>Live state (\<open>ApiParameters\<close>)\<close>

text \<open>
  What the device returns for the resource (\<open>resource.attrs\<close>), under the device's
  attribute names: entries are objects with a \<open>name\<close>, list references have a
  \<open>partition\<close> too. The array \<open>addresses\<close> holds single addresses and ranges alike.
\<close>

record name_entry =
  name :: string

record list_ref = name_entry +
  partition :: string

record attrs =
  a_addressLists :: "list_ref list option"
  a_addresses :: "name_entry list option"
  a_description :: "string option"
  a_fqdns :: "name_entry list option"
  a_geo :: "name_entry list option"

text \<open>\<open>ApiParameters()\<close> without parameters: every value is \<open>None\<close>.\<close>

definition no_attrs :: attrs where
  "no_attrs = \<lparr>a_addressLists = None, a_addresses = None, a_description = None,
                a_fqdns = None, a_geo = None\<rparr>"

definition has_dash :: "string \<Rightarrow> bool" where
  "has_dash s = (CHR ''-'' \<in> set s)"

definition AP_address_ranges :: "attrs \<Rightarrow> string list option" where
  "AP_address_ranges a =
     (case a_addresses a of
        None \<Rightarrow> None
      | Some es \<Rightarrow> Some (sort (map (\<lambda>e. str_strip (name e)) (filter (\<lambda>e. has_dash (name e)) es))))"

definition list_ref_path :: "list_ref \<Rightarrow> string" where
  "list_ref_path x = ''/'' @ partition x @ ''/'' @ name x"

definition AP_address_lists :: "attrs \<Rightarrow> string list option" where
  "AP_address_lists a =
     (case a_addressLists a of
        None \<Rightarrow> None
      | Some xs \<Rightarrow> Some (sort (map list_ref_path xs)))"

definition AP_addresses :: "attrs \<Rightarrow> string list option" where
  "AP_addresses a =
     (case a_addresses a of
        None \<Rightarrow> None
      | Some es \<Rightarrow> Some (sort (map name (filter (\<lambda>x. \<not> has_dash (name x)) es))))"

definition AP_fqdns :: "attrs \<Rightarrow> string list option" where
  "AP_fqdns a =
     (case a_fqdns a of
        None \<Rightarrow> None
      | Some es \<Rightarrow> Some (sort (map name es)))"

definition AP_geo_locations :: "attrs \<Rightarrow> string list option" where
  "AP_geo_locations a =
     (case a_geo a of
        None \<Rightarrow> None
      | Some es \<Rightarrow> Some (sort (map name es)))"

section \<open>The differ (\<open>Difference\<close>)\<close>

text \<open>
  A property returns the change, or \<open>None\<close> for no change. The four properties
  \<open>addresses\<close>, \<open>address_lists\<close>, \<open>address_ranges\<close> and \<open>fqdns\<close> have the same body,
  \<open>sorted_compare\<close>, on the value wanted and the value the device has.
\<close>

definition sorted_compare :: "string list option \<Rightarrow> string list option \<Rightarrow> string list option" where
  "sorted_compare want hav =
     (case want of
        None \<Rightarrow> None
      | Some w \<Rightarrow>
          (case hav of
             None \<Rightarrow> Some w
           | Some h \<Rightarrow> if sort w \<noteq> sort h then Some w else None))"

text \<open>
  \<open>Difference.__default\<close>, which \<open>compare\<close> falls back to for \<open>description\<close> and
  \<open>geo_locations\<close>: the wanted value when it differs from the device's.
\<close>

definition default_compare :: "'a option \<Rightarrow> 'a option \<Rightarrow> 'a option" where
  "default_compare attr1 attr2 = (if attr1 \<noteq> attr2 then attr1 else None)"

definition Difference_addresses :: "netaddr \<Rightarrow> params \<Rightarrow> attrs \<Rightarrow> exn + string list option" where
  "Difference_addresses na want hav =
     (case MP_addresses na (p_addresses want) of
        Inl e \<Rightarrow> Inl e
      | Inr w \<Rightarrow> Inr (sorted_compare w (AP_addresses hav)))"

definition Difference_address_lists :: "params \<Rightarrow> attrs \<Rightarrow> string list option" where
  "Difference_address_lists want hav =
     sorted_compare (MP_address_lists (p_partition want) (p_address_lists want)) (AP_address_lists hav)"

definition Difference_address_ranges :: "netaddr \<Rightarrow> params \<Rightarrow> attrs \<Rightarrow> exn + string list option" where
  "Difference_address_ranges na want hav =
     (case MP_address_ranges na (p_address_ranges want) of
        Inl e \<Rightarrow> Inl e
      | Inr w \<Rightarrow> Inr (sorted_compare w (AP_address_ranges hav)))"

definition Difference_fqdns :: "params \<Rightarrow> attrs \<Rightarrow> exn + string list option" where
  "Difference_fqdns want hav =
     (case MP_fqdns (p_fqdns want) of
        Inl e \<Rightarrow> Inl e
      | Inr w \<Rightarrow> Inr (sorted_compare w (AP_fqdns hav)))"

definition Difference_description :: "params \<Rightarrow> attrs \<Rightarrow> string option" where
  "Difference_description want hav = default_compare (p_description want) (a_description hav)"

definition Difference_geo_locations :: "params \<Rightarrow> attrs \<Rightarrow> string list option" where
  "Difference_geo_locations want hav =
     default_compare (MP_geo_locations (p_geo_locations want)) (AP_geo_locations hav)"

section \<open>The change-set (\<open>_update_changed_options\<close>, \<open>UsableChanges\<close>)\<close>

text \<open>
  The dictionary \<open>changed\<close>: a key of \<open>updatables\<close> is in it exactly when its field here
  is not \<open>None\<close> (a change that is \<open>None\<close> is never stored).
\<close>

record changes =
  c_addresses :: "string list option"
  c_address_ranges :: "string list option"
  c_address_lists :: "string list option"
  c_description :: "string option"
  c_fqdns :: "string list option"
  c_geo_locations :: "string list option"

definition no_changes :: changes where
  "no_changes = \<lparr>c_addresses = None, c_address_ranges = None, c_address_lists = None,
                  c_description = None, c_fqdns = None, c_geo_locations = None\<rparr>"

text \<open>
  The loop over \<open>updatables\<close>, in its order: \<open>addresses\<close>, \<open>address_ranges\<close>,
  \<open>address_lists\<close>, \<open>description\<close>, \<open>fqdns\<close>, \<open>geo_locations\<close>. An exception of a
  comparison ends it; the comparisons of \<open>address_lists\<close>, \<open>description\<close> and
  \<open>geo_locations\<close> raise nothing.
\<close>

definition compare_all :: "netaddr \<Rightarrow> params \<Rightarrow> attrs \<Rightarrow> exn + changes" where
  "compare_all na want hav =
     (case Difference_addresses na want hav of
        Inl e \<Rightarrow> Inl e
      | Inr addresses \<Rightarrow>
          (case Difference_address_ranges na want hav of
             Inl e \<Rightarrow> Inl e
           | Inr address_ranges \<Rightarrow>
               (case Difference_fqdns want hav of
                  Inl e \<Rightarrow> Inl e
                | Inr fqdns \<Rightarrow>
                    Inr \<lparr>c_addresses = addresses,
                         c_address_ranges = address_ranges,
                         c_address_lists = Difference_address_lists want hav,
                         c_description = Difference_description want hav,
                         c_fqdns = fqdns,
                         c_geo_locations = Difference_geo_locations want hav\<rparr>)))"

text \<open>
  Modelled from the spec: the base class of the parameter classes
  (\<open>AnsibleF5Parameters\<close>: the store \<open>_values\<close>, \<open>_filter_params\<close>, \<open>api_params\<close>) is not
  among the sources. A value that was not supplied reads as \<open>None\<close>, which the
  properties of the module test for; \<open>_filter_params\<close> drops the keys whose value is
  \<open>None\<close>; \<open>api_params\<close> reads every attribute of \<open>api_attributes\<close> through \<open>api_map\<close>,
  in the order \<open>addressLists\<close>, \<open>addresses\<close>, \<open>description\<close>, \<open>fqdns\<close>, \<open>geo\<close>, and filters
  the result. A record of optional fields is such a filtered dictionary.
\<close>

record wire =
  w_addressLists :: "list_ref list option"
  w_addresses :: "name_entry list option"
  w_description :: "string option"
  w_fqdns :: "string list option"
  w_geo :: "string list option"

text \<open>\<open>UsableChanges.addresses\<close>: addresses and ranges merged into the device's one array.\<close>

definition named :: "string \<Rightarrow> name_entry" where
  "named x = \<lparr>name = x\<rparr>"

definition UC_addresses :: "changes \<Rightarrow> name_entry list option" where
  "UC_addresses c =
     (if c_addresses c = None \<and> c_address_ranges c = None then None
      else Some ((case c_addresses c of None \<Rightarrow> [] | Some xs \<Rightarrow> map named xs) @
                 (case c_address_ranges c of None \<Rightarrow> [] | Some xs \<Rightarrow> map named xs)))"

text \<open>
  \<open>UsableChanges.address_lists\<close>: \<open>partition, name = x.split('/')[1:]\<close> raises
  \<open>ValueError\<close> unless exactly two parts follow the first.
\<close>

definition ref_of_path :: "string \<Rightarrow> exn + list_ref" where
  "ref_of_path x =
     (case tl (str_split CHR ''/'' x) of
        [part, nm] \<Rightarrow> Inr \<lparr>name = nm, partition = part\<rparr>
      | _ \<Rightarrow> Inl ValueError)"

fun refs_loop :: "list_ref list \<Rightarrow> string list \<Rightarrow> exn + list_ref list" where
  "refs_loop result [] = Inr result"
| "refs_loop result (x # xs) =
     (case ref_of_path x of
        Inl e \<Rightarrow> Inl e
      | Inr r \<Rightarrow> refs_loop (result @ [r]) xs)"

definition UC_address_lists :: "changes \<Rightarrow> exn + list_ref list option" where
  "UC_address_lists c =
     (case c_address_lists c of
        None \<Rightarrow> Inr None
      | Some xs \<Rightarrow>
          (case refs_loop [] xs of
             Inl e \<Rightarrow> Inl e
           | Inr result \<Rightarrow> Inr (Some result)))"

definition api_params :: "changes \<Rightarrow> exn + wire" where
  "api_params c =
     (case UC_address_lists c of
        Inl e \<Rightarrow> Inl e
      | Inr address_lists \<Rightarrow>
          Inr \<lparr>w_addressLists = address_lists,
               w_addresses = UC_addresses c,
               w_description = c_description c,
               w_fqdns = c_fqdns c,
               w_geo = c_geo_locations c\<rparr>)"

section \<open>The report (\<open>Changes.to_return\<close>, \<open>ReportableChanges\<close>)\<close>

text \<open>
  \<open>to_return\<close> reads the \<open>returnables\<close> in their order (\<open>addresses\<close>, \<open>address_ranges\<close>,
  \<open>address_lists\<close>, \<open>description\<close>, \<open>fqdns\<close>, \<open>geo_locations\<close>) into a dictionary and
  filters it; an exception of any of them is swallowed, and the dictionary is returned
  as far as it was filled. On \<open>UsableChanges\<close> only \<open>address_lists\<close> can raise.
\<close>

record usable =
  u_addresses :: "name_entry list option"
  u_address_ranges :: "string list option"
  u_address_lists :: "list_ref list option"
  u_description :: "string option"
  u_fqdns :: "string list option"
  u_geo_locations :: "string list option"

definition UC_to_return :: "changes \<Rightarrow> usable" where
  "UC_to_return c =
     (case UC_address_lists c of
        Inl e \<Rightarrow>
          \<lparr>u_addresses = UC_addresses c, u_address_ranges = c_address_ranges c,
           u_address_lists = None, u_description = None, u_fqdns = None,
           u_geo_locations = None\<rparr>
      | Inr address_lists \<Rightarrow>
          \<lparr>u_addresses = UC_addresses c, u_address_ranges = c_address_ranges c,
           u_address_lists = address_lists, u_description = c_description c,
           u_fqdns = c_fqdns c, u_geo_locations = c_geo_locations c\<rparr>)"

text \<open>
  The properties of \<open>ReportableChanges\<close> iterate over their value without testing it
  for \<open>None\<close>: iterating over \<open>None\<close> raises \<open>TypeError\<close>.
\<close>

definition RC_addresses :: "usable \<Rightarrow> exn + string list" where
  "RC_addresses u =
     (case u_addresses u of
        None \<Rightarrow> Inl TypeError
      | Some items \<Rightarrow> Inr (map name (filter (\<lambda>item. \<not> has_dash (name item)) items)))"

definition RC_address_ranges :: "netaddr \<Rightarrow> usable \<Rightarrow> exn + string list" where
  "RC_address_ranges na u =
     (case u_addresses u of
        None \<Rightarrow> Inl TypeError
      | Some items \<Rightarrow>
          (case ranges_loop na [] (map name (filter (\<lambda>item. has_dash (name item)) items)) of
             Inl e \<Rightarrow> Inl e
           | Inr result \<Rightarrow> Inr (sort result)))"

definition RC_address_lists :: "usable \<Rightarrow> exn + string list" where
  "RC_address_lists u =
     (case u_address_lists u of
        None \<Rightarrow> Inl TypeError
      | Some xs \<Rightarrow> Inr (sort (map list_ref_path xs)))"

text \<open>The result of \<open>exec_module\<close>: the reported fields and the flag \<open>changed\<close> (\<open>r_changed\<close>).\<close>

record report =
  r_addresses :: "string list option"
  r_address_ranges :: "string list option"
  r_address_lists :: "string list option"
  r_description :: "string option"
  r_fqdns :: "string list option"
  r_geo_locations :: "string list option"
  r_changed :: bool

definition empty_report :: "bool \<Rightarrow> report" where
  "empty_report ch =
     \<lparr>r_addresses = None, r_address_ranges = None, r_address_lists = None,
      r_description = None, r_fqdns = None, r_geo_locations = None, r_changed = ch\<rparr>"

text \<open>
  \<open>ReportableChanges(params=u).to_return()\<close>, joined with the flag as \<open>exec_module\<close>
  does: the first property that raises ends the report with what came before it.
\<close>

definition RC_to_return :: "netaddr \<Rightarrow> usable \<Rightarrow> bool \<Rightarrow> report" where
  "RC_to_return na u ch =
     (case RC_addresses u of
        Inl e \<Rightarrow> empty_report ch
      | Inr addresses \<Rightarrow>
          (case RC_address_ranges na u of
             Inl e \<Rightarrow> (empty_report ch)\<lparr>r_addresses := Some addresses\<rparr>
           | Inr address_ranges \<Rightarrow>
               (case RC_address_lists u of
                  Inl e \<Rightarrow>
                    (empty_report ch)\<lparr>r_addresses := Some addresses,
                                       r_address_ranges := Some address_ranges\<rparr>
                | Inr address_lists \<Rightarrow>
                    \<lparr>r_addresses = Some addresses,
                     r_address_ranges = Some address_ranges,
                     r_address_lists = Some address_lists,
                     r_description = u_description u,
                     r_fqdns = u_fqdns u,
                     r_geo_locations = u_geo_locations u,
                     r_changed = ch\<rparr>)))"

section \<open>The device client\<close>

text \<open>
  The device is reached through five calls of the client, for the resource of the
  wanted name and partition. The client is a parameter of the model: each call is a
  function of the device's state \<open>'d\<close> that returns its result, or the exception it
  raises. \<open>load\<close> returns the resource, of which the module reads \<open>attrs\<close>.
\<close>

record 'd client =
  api_exists :: "string \<Rightarrow> string \<Rightarrow> 'd \<Rightarrow> exn + bool"
  api_load :: "string \<Rightarrow> string \<Rightarrow> 'd \<Rightarrow> exn + attrs"
  api_create :: "string \<Rightarrow> string \<Rightarrow> wire \<Rightarrow> 'd \<Rightarrow> exn + 'd"
  api_modify :: "string \<Rightarrow> string \<Rightarrow> wire \<Rightarrow> 'd \<Rightarrow> exn + 'd"
  api_delete :: "string \<Rightarrow> string \<Rightarrow> 'd \<Rightarrow> exn + 'd"

text \<open>The calls made to the device, in their order, with what was sent.\<close>

datatype call = CallExists | CallLoad | CallCreate wire | CallModify wire | CallDelete

section \<open>The reconciler (\<open>ModuleManager\<close>)\<close>

text \<open>
  The state of a \<open>ModuleManager\<close>: the device behind the client, the calls made so
  far, \<open>self.have\<close> and \<open>self.changes\<close>. \<open>self.want\<close> never changes and is an argument.
  A method returns its value or the exception it raises, and the state it leaves.
\<close>

record 'd manager =
  mm_device :: 'd
  mm_calls :: "call list"
  mm_have :: attrs
  mm_changes :: changes

text \<open>A new \<open>ModuleManager\<close>: \<open>have = ApiParameters()\<close>, \<open>changes = UsableChanges()\<close>.\<close>

definition new_manager :: "'d \<Rightarrow> 'd manager" where
  "new_manager d = \<lparr>mm_device = d, mm_calls = [], mm_have = no_attrs, mm_changes = no_changes\<rparr>"

definition called :: "call \<Rightarrow> 'd manager \<Rightarrow> 'd manager" where
  "called c st = st\<lparr>mm_calls := mm_calls st @ [c]\<rparr>"

text \<open>
  \<open>_update_changed_options\<close>: a dictionary \<open>changed\<close> that is not empty replaces
  \<open>self.changes\<close>.
\<close>

definition update_changed_options ::
  "netaddr \<Rightarrow> params \<Rightarrow> 'd manager \<Rightarrow> (exn + bool) \<times> 'd manager" where
  "update_changed_options na want st =
     (case compare_all na want (mm_have st) of
        Inl e \<Rightarrow> (Inl e, st)
      | Inr changed \<Rightarrow>
          if changed \<noteq> no_changes then (Inr True, st\<lparr>mm_changes := changed\<rparr>)
          else (Inr False, st))"

definition should_update ::
  "netaddr \<Rightarrow> params \<Rightarrow> 'd manager \<Rightarrow> (exn + bool) \<times> 'd manager" where
  "should_update na want st = update_changed_options na want st"

definition exists_on_device ::
  "'d client \<Rightarrow> params \<Rightarrow> 'd manager \<Rightarrow> (exn + bool) \<times> 'd manager" where
  "exists_on_device cl want st =
     (api_exists cl (p_name want) (p_partition want) (mm_device st), called CallExists st)"

definition read_current_from_device ::
  "'d client \<Rightarrow> params \<Rightarrow> 'd manager \<Rightarrow> (exn + attrs) \<times> 'd manager" where
  "read_current_from_device cl want st =
     (api_load cl (p_name want) (p_partition want) (mm_device st), called CallLoad st)"

text \<open>\<open>update_on_device\<close>: the parameters are built before the resource is loaded.\<close>

definition update_on_device ::
  "'d client \<Rightarrow> params \<Rightarrow> 'd manager \<Rightarrow> (exn + unit) \<times> 'd manager" where
  "update_on_device cl want st =
     (case api_params (mm_changes st) of
        Inl e \<Rightarrow> (Inl e, st)
      | Inr ps \<Rightarrow>
          (case api_load cl (p_name want) (p_partition want) (mm_device st) of
             Inl e \<Rightarrow> (Inl e, called CallLoad st)
           | Inr resource \<Rightarrow>
               (case api_modify cl (p_name want) (p_partition want) ps (mm_device st) of
                  Inl e \<Rightarrow> (Inl e, called (CallModify ps) (called CallLoad st))
                | Inr d \<Rightarrow>
                    (Inr (), (called (CallModify ps) (called CallLoad st))\<lparr>mm_device := d\<rparr>))))"

definition create_on_device ::
  "'d client \<Rightarrow> params \<Rightarrow> 'd manager \<Rightarrow> (exn + unit) \<times> 'd manager" where
  "create_on_device cl want st =
     (case api_params (mm_changes st) of
        Inl e \<Rightarrow> (Inl e, st)
      | Inr ps \<Rightarrow>
          (case api_create cl (p_name want) (p_partition want) ps (mm_device st) of
             Inl e \<Rightarrow> (Inl e, called (CallCreate ps) st)
           | Inr d \<Rightarrow> (Inr (), (called (CallCreate ps) st)\<lparr>mm_device := d\<rparr>)))"

text \<open>\<open>remove_from_device\<close>: the loaded resource is an object, which is true in \<open>if resource\<close>.\<close>

definition remove_from_device ::
  "'d client \<Rightarrow> params \<Rightarrow> 'd manager \<Rightarrow> (exn + unit) \<times> 'd manager" where
  "remove_from_device cl want st =
     (case api_load cl (p_name want) (p_partition want) (mm_device st) of
        Inl e \<Rightarrow> (Inl e, called CallLoad st)
      | Inr resource \<Rightarrow>
          (case api_delete cl (p_name want) (p_partition want) (mm_device st) of
             Inl e \<Rightarrow> (Inl e, called CallDelete (called CallLoad st))
           | Inr d \<Rightarrow> (Inr (), (called CallDelete (called CallLoad st))\<lparr>mm_device := d\<rparr>)))"

definition update ::
  "netaddr \<Rightarrow> 'd client \<Rightarrow> params \<Rightarrow> 'd manager \<Rightarrow> (exn + bool) \<times> 'd manager" where
  "update na cl want st =
     (case read_current_from_device cl want st of
        (Inl e, st1) \<Rightarrow> (Inl e, st1)
      | (Inr current, st1) \<Rightarrow>
          (case should_update na want (st1\<lparr>mm_have := current\<rparr>) of
             (Inl e, st2) \<Rightarrow> (Inl e, st2)
           | (Inr False, st2) \<Rightarrow> (Inr False, st2)
           | (Inr True, st2) \<Rightarrow>
               if check_mode want then (Inr True, st2)
               else (case update_on_device cl want st2 of
                       (Inl e, st3) \<Rightarrow> (Inl e, st3)
                     | (Inr _, st3) \<Rightarrow> (Inr True, st3))))"

definition failed_to_delete :: exn where
  "failed_to_delete = F5ModuleError ''Failed to delete the resource.''"

definition remove ::
  "'d client \<Rightarrow> params \<Rightarrow> 'd manager \<Rightarrow> (exn + bool) \<times> 'd manager" where
  "remove cl want st =
     (if check_mode want then (Inr True, st)
      else (case remove_from_device cl want st of
              (Inl e, st1) \<Rightarrow> (Inl e, st1)
            | (Inr _, st1) \<Rightarrow>
                (case exists_on_device cl want st1 of
                   (Inl e, st2) \<Rightarrow> (Inl e, st2)
                 | (Inr True, st2) \<Rightarrow> (Inl failed_to_delete, st2)
                 | (Inr False, st2) \<Rightarrow> (Inr True, st2))))"

text \<open>\<open>create\<close> ignores what \<open>_update_changed_options\<close> returns.\<close>

definition create ::
  "netaddr \<Rightarrow> 'd client \<Rightarrow> params \<Rightarrow> 'd manager \<Rightarrow> (exn + bool) \<times> 'd manager" where
  "create na cl want st =
     (case update_changed_options na want (st\<lparr>mm_have := no_attrs\<rparr>) of
        (Inl e, st1) \<Rightarrow> (Inl e, st1)
      | (Inr _, st1) \<Rightarrow>
          if check_mode want then (Inr True, st1)
          else (case create_on_device cl want st1 of
                  (Inl e, st2) \<Rightarrow> (Inl e, st2)
                | (Inr _, st2) \<Rightarrow> (Inr True, st2)))"

definition present ::
  "netaddr \<Rightarrow> 'd client \<Rightarrow> params \<Rightarrow> 'd manager \<Rightarrow> (exn + bool) \<times> 'd manager" where
  "present na cl want st =
     (case exists_on_device cl want st of
        (Inl e, st1) \<Rightarrow> (Inl e, st1)
      | (Inr True, st1) \<Rightarrow> update na cl want st1
      | (Inr False, st1) \<Rightarrow> create na cl want st1)"

definition absent ::
  "'d client \<Rightarrow> params \<Rightarrow> 'd manager \<Rightarrow> (exn + bool) \<times> 'd manager" where
  "absent cl want st =
     (case exists_on_device cl want st of
        (Inl e, st1) \<Rightarrow> (Inl e, st1)
      | (Inr True, st1) \<Rightarrow> remove cl want st1
      | (Inr False, st1) \<Rightarrow> (Inr False, st1))"

text \<open>
  \<open>exec_module\<close>: an \<open>iControlUnexpectedHTTPError\<close> of the device becomes an
  \<open>F5ModuleError\<close> with its message; the report is built from \<open>self.changes\<close>.
  \<open>_announce_deprecations\<close> finds no warnings in the report and is left out.
\<close>

definition exec_module ::
  "netaddr \<Rightarrow> 'd client \<Rightarrow> params \<Rightarrow> 'd manager \<Rightarrow> (exn + report) \<times> 'd manager" where
  "exec_module na cl want st =
     (case (case p_state want of
              StatePresent \<Rightarrow> present na cl want st
            | StateAbsent \<Rightarrow> absent cl want st) of
        (Inl (iControlUnexpectedHTTPError msg), st1) \<Rightarrow> (Inl (F5ModuleError msg), st1)
      | (Inl e, st1) \<Rightarrow> (Inl e, st1)
      | (Inr ch, st1) \<Rightarrow> (Inr (RC_to_return na (UC_to_return (mm_changes st1)) ch), st1))"

section \<open>A sample library and a sample device\<close>

text \<open>
  For runs on concrete inputs, the parameters are instantiated with a sample of the
  address library and a sample device. \<open>sample_IPAddress\<close> constructs an address from the
  two common forms of text, on which every version of the library agrees: four decimal
  octets without leading zeros, separated by dots, and eight groups of hexadecimal digits
  separated by colons, where one \<open>::\<close> may stand for a run of zero groups. Text with a
  slash raises \<open>ValueError\<close> (the constructor takes no netmask); any other text raises
  \<open>AddrFormatError\<close> here, also the rarer forms of an address that the library reads.
\<close>

definition digit_of :: "char \<Rightarrow> int option" where
  "digit_of c = (if CHR ''0'' \<le> c \<and> c \<le> CHR ''9'' then Some (of_char c - 48) else None)"

definition octet_of :: "string \<Rightarrow> int option" where
  "octet_of s =
     (case those (map digit_of s) of
        Some [a] \<Rightarrow> Some a
      | Some [a, b] \<Rightarrow> if a = 0 then None else Some (10 * a + b)
      | Some [a, b, c] \<Rightarrow>
          if a = 0 \<or> 255 < 100 * a + 10 * b + c then None else Some (100 * a + 10 * b + c)
      | _ \<Rightarrow> None)"

definition ipv4_of :: "string \<Rightarrow> int option" where
  "ipv4_of s =
     (case those (map octet_of (str_split CHR ''.'' s)) of
        Some [a, b, c, d] \<Rightarrow> Some (((a * 256 + b) * 256 + c) * 256 + d)
      | _ \<Rightarrow> None)"

definition hex_of :: "char \<Rightarrow> int option" where
  "hex_of c =
     (if CHR ''0'' \<le> c \<and> c \<le> CHR ''9'' then Some (of_char c - 48)
      else if CHR ''a'' \<le> c \<and> c \<le> CHR ''f'' then Some (of_char c - 87)
      else if CHR ''A'' \<le> c \<and> c \<le> CHR ''F'' then Some (of_char c - 55)
      else None)"

definition hextet_of :: "string \<Rightarrow> int option" where
  "hextet_of s =
     (if s = [] \<or> 4 < length s then None
      else map_option (foldl (\<lambda>acc d. 16 * acc + d) 0) (those (map hex_of s)))"

definition hextets_of :: "string \<Rightarrow> int list option" where
  "hextets_of s = (if s = [] then Some [] else those (map hextet_of (str_split CHR '':'' s)))"

text \<open>The text before and after the first \<open>::\<close>, if there is one.\<close>

fun find_gap :: "string \<Rightarrow> (string \<times> string) option" where
  "find_gap (a # b # cs) =
     (if a = CHR '':'' \<and> b = CHR '':'' then Some ([], cs)
      else (case find_gap (b # cs) of
              None \<Rightarrow> None
            | Some (l, r) \<Rightarrow> Some (a # l, r)))"
| "find_gap _ = None"

definition ipv6_words_of :: "string \<Rightarrow> int list option" where
  "ipv6_words_of s =
     (case find_gap s of
        None \<Rightarrow>
          (case hextets_of s of
             None \<Rightarrow> None
           | Some ws \<Rightarrow> if length ws = 8 then Some ws else None)
      | Some (l, r) \<Rightarrow>
          (case (hextets_of l, hextets_of r) of
             (Some a, Some b) \<Rightarrow>
               if length a + length b \<le> 7
               then Some (a @ replicate (8 - (length a + length b)) 0 @ b)
               else None
           | _ \<Rightarrow> None))"

definition ipv6_of :: "string \<Rightarrow> int option" where
  "ipv6_of s = map_option (foldl (\<lambda>acc w. 65536 * acc + w) 0) (ipv6_words_of s)"

definition sample_IPAddress :: "string \<Rightarrow> exn + ipaddr" where
  "sample_IPAddress s =
     (if CHR ''/'' \<in> set s then Inl ValueError
      else (case ipv4_of s of
              Some v \<Rightarrow> Inr \<lparr>version = 4, ip_value = v\<rparr>
            | None \<Rightarrow>
                (case ipv6_of s of
                   Some v \<Rightarrow> Inr \<lparr>version = 6, ip_value = v\<rparr>
                 | None \<Rightarrow> Inl AddrFormatError)))"

text \<open>
  \<open>sample_str\<close> prints an address of version 4 as dotted decimal and one of version 6 in
  lower-case groups, the leftmost longest run of two or more zero groups written \<open>::\<close>.
\<close>

definition dec_str :: "int \<Rightarrow> string" where
  "dec_str n =
     map (\<lambda>d. char_of (48 + d))
       (if n < 10 then [n] else if n < 100 then [n div 10, n mod 10]
        else [n div 100 mod 10, n div 10 mod 10, n mod 10])"

definition ipv4_str :: "int \<Rightarrow> string" where
  "ipv4_str v =
     dec_str (v div 16777216 mod 256) @ ''.'' @ dec_str (v div 65536 mod 256) @ ''.'' @
     dec_str (v div 256 mod 256) @ ''.'' @ dec_str (v mod 256)"

definition hextet_str :: "int \<Rightarrow> string" where
  "hextet_str w =
     map (\<lambda>d. if d < 10 then char_of (48 + d) else char_of (87 + d))
       (dropWhile (\<lambda>d. d = 0) [w div 4096 mod 16, w div 256 mod 16, w div 16 mod 16] @ [w mod 16])"

fun join_colon :: "string list \<Rightarrow> string" where
  "join_colon [] = []"
| "join_colon [x] = x"
| "join_colon (x # y # ys) = x @ '':'' @ join_colon (y # ys)"

definition ipv6_str :: "int \<Rightarrow> string" where
  "ipv6_str v =
     (let ws = map (\<lambda>i. v div 65536 ^ (7 - i) mod 65536) [0..<8];
          runs = map (\<lambda>i. length (takeWhile (\<lambda>w. w = 0) (drop i ws))) [0..<8];
          longest = foldr max runs 0
      in if longest < 2 then join_colon (map hextet_str ws)
         else (case find (\<lambda>i. runs ! i = longest) [0..<8] of
                 None \<Rightarrow> join_colon (map hextet_str ws)
               | Some i \<Rightarrow>
                   join_colon (map hextet_str (take i ws)) @ ''::'' @
                   join_colon (map hextet_str (drop (i + longest) ws))))"

definition sample_str :: "ipaddr \<Rightarrow> string" where
  "sample_str a = (if version a = 4 then ipv4_str (ip_value a) else ipv6_str (ip_value a))"

definition sample_netaddr :: netaddr where
  "sample_netaddr = \<lparr>IPAddress = sample_IPAddress, ip_str = sample_str\<rparr>"

text \<open>
  The sample device holds one resource or none. A create or a modify replaces the
  attributes that are sent and keeps the others; a delete removes the resource; a load
  or a modify of a resource that is not there fails.
\<close>

definition not_found :: exn where
  "not_found = iControlUnexpectedHTTPError ''404 Unexpected Error: Not Found''"

definition store :: "wire \<Rightarrow> attrs \<Rightarrow> attrs" where
  "store w a =
     \<lparr>a_addressLists = (case w_addressLists w of None \<Rightarrow> a_addressLists a | Some x \<Rightarrow> Some x),
      a_addresses = (case w_addresses w of None \<Rightarrow> a_addresses a | Some x \<Rightarrow> Some x),
      a_description = (case w_description w of None \<Rightarrow> a_description a | Some x \<Rightarrow> Some x),
      a_fqdns = (case w_fqdns w of None \<Rightarrow> a_fqdns a | Some x \<Rightarrow> Some (map named x)),
      a_geo = (case w_geo w of None \<Rightarrow> a_geo a | Some x \<Rightarrow> Some (map named x))\<rparr>"

definition sample_client :: "attrs option client" where
  "sample_client =
     \<lparr>api_exists = (\<lambda>nm part d. Inr (d \<noteq> None)),
      api_load = (\<lambda>nm part d. case d of None \<Rightarrow> Inl not_found | Some a \<Rightarrow> Inr a),
      api_create = (\<lambda>nm part w d. Inr (Some (store w no_attrs))),
      api_modify = (\<lambda>nm part w d. case d of None \<Rightarrow> Inl not_found | Some a \<Rightarrow> Inr (Some (store w a))),
      api_delete = (\<lambda>nm part d. Inr None)\<rparr>"

text \<open>A sample device on which a delete is accepted and removes nothing.\<close>

definition stuck_client :: "attrs option client" where
  "stuck_client = sample_client\<lparr>api_delete := (\<lambda>nm part d. Inr d)\<rparr>"

text \<open>Parameters with only a name: every optional field not supplied.\<close>

definition only_name :: "string \<Rightarrow> params" where
  "only_name nm =
     \<lparr>p_name = nm, p_partition = ''Common'', p_description = None, p_addresses = None,
      p_address_ranges = None, p_address_lists = None, p_fqdns = None,
      p_geo_locations = None, p_state = StatePresent, check_mode = False\<rparr>"

section \<open>Hostnames of \<open>fqdns\<close>\<close>

text \<open>
  What the regular expression accepts: a label of 1 to 63 characters of its class, no
  hyphen first or last, with or without one newline after it.
\<close>

lemma allowed_match_iff:
  "allowed_match x \<longleftrightarrow>
     (\<exists>p. (x = p \<or> x = p @ [newline]) \<and> 1 \<le> length p \<and> length p \<le> 63 \<and>
          list_all ldh p \<and> hd p \<noteq> hyphen \<and> last p \<noteq> hyphen)"
proof
  assume "allowed_match x"
  then obtain n where n: "1 \<le> n" "n < 64" "n \<le> length x" "list_all ldh (take n x)"
      "last (take n x) \<noteq> hyphen" "at_end (drop n x)" and t: "take 1 x \<noteq> [hyphen]"
    by (auto simp: allowed_match_def list_ex_iff)
  let ?p = "take n x"
  have x: "x = ?p @ drop n x" by simp
  from n have ne: "x \<noteq> []" by auto
  have "x = ?p \<or> x = ?p @ [newline]"
    using n(6) x unfolding at_end_def by (metis append_Nil2)
  moreover have "length ?p = n" using n by simp
  moreover have "hd ?p \<noteq> hyphen"
    using t ne n(1) by (cases x) (auto simp: take_Suc_conv_app_nth)
  ultimately show "\<exists>p. (x = p \<or> x = p @ [newline]) \<and> 1 \<le> length p \<and> length p \<le> 63 \<and>
          list_all ldh p \<and> hd p \<noteq> hyphen \<and> last p \<noteq> hyphen"
    using n by (intro exI[of _ ?p]) auto
next
  assume "\<exists>p. (x = p \<or> x = p @ [newline]) \<and> 1 \<le> length p \<and> length p \<le> 63 \<and>
          list_all ldh p \<and> hd p \<noteq> hyphen \<and> last p \<noteq> hyphen"
  then obtain p where p: "x = p \<or> x = p @ [newline]" "1 \<le> length p" "length p \<le> 63"
      "list_all ldh p" "hd p \<noteq> hyphen" "last p \<noteq> hyphen" by blast
  from p(2) obtain c cs where pc: "p = c # cs" by (cases p) auto
  have t: "take 1 x \<noteq> [hyphen]" using p(1,5) pc by auto
  have "take (length p) x = p" "at_end (drop (length p) x)" "length p \<le> length x"
    using p(1) by (auto simp: at_end_def)
  then have "list_ex (\<lambda>n. n \<le> length x \<and> list_all ldh (take n x) \<and>
                    last (take n x) \<noteq> hyphen \<and> at_end (drop n x)) [1..<64]"
    unfolding list_ex_iff using p by (intro bexI[of _ "length p"]) auto
  with t show "allowed_match x" by (simp add: allowed_match_def)
qed

text \<open>
  On a label without a newline and without the four characters beyond ASCII, this is the
  rule of letters, digits and hyphens.
\<close>

lemma label_rule:
  assumes "newline \<notin> set x" and "set x \<inter> set case_folded = {}"
  shows "allowed_match x \<longleftrightarrow>
           1 \<le> length x \<and> length x \<le> 63 \<and> list_all ldh_ascii x \<and> hd x \<noteq> hyphen \<and> last x \<noteq> hyphen"
proof -
  have a: "list_all ldh x = list_all ldh_ascii x"
    using assms(2) by (auto simp: list_all_iff ldh_def)
  have "x \<noteq> p @ [newline]" for p using assms(1) by auto
  then have "allowed_match x \<longleftrightarrow>
           1 \<le> length x \<and> length x \<le> 63 \<and> list_all ldh x \<and> hd x \<noteq> hyphen \<and> last x \<noteq> hyphen"
    unfolding allowed_match_iff by auto
  with a show ?thesis by simp
qed

text \<open>
  The labels of a text hold characters of the text only.
\<close>

lemma str_split_not_Nil: "str_split sep s \<noteq> []"
  by (induction s) (auto split: list.split)

lemma str_split_subset: "l \<in> set (str_split sep s) \<Longrightarrow> set l \<subseteq> set s"
proof (induction s arbitrary: l)
  case Nil
  then show ?case by simp
next
  case (Cons c cs)
  show ?case
  proof (cases "c = sep")
    case True
    with Cons show ?thesis by auto
  next
    case False
    obtain w ws where w: "str_split sep cs = w # ws" using str_split_not_Nil [of sep cs] by (cases "str_split sep cs") auto
    with False Cons.prems have "l = c # w \<or> l \<in> set ws" by auto
    then show ?thesis
    proof
      assume "l = c # w"
      moreover have "set w \<subseteq> set cs" using Cons.IH [of w] w by simp
      ultimately show ?thesis by auto
    next
      assume "l \<in> set ws"
      then have "set l \<subseteq> set cs" using Cons.IH [of l] w by simp
      then show ?thesis by auto
    qed
  qed
qed

lemma str_rstrip_subset: "set (str_rstrip sep s) \<subseteq> set s"
  unfolding str_rstrip_def using set_dropWhileD [of _ "\<lambda>x. x = sep" "rev s"] by auto

lemma fqdns_loop_find:
  "fqdns_loop acc xs =
     (case find (\<lambda>x. \<not> is_valid_hostname (codes x)) xs of
        None \<Rightarrow> Inr (acc @ xs)
      | Some x \<Rightarrow> Inl (hostname_error x))"
  by (induction xs arbitrary: acc) (auto split: option.split)

text \<open>
  Claim C5, as the code has it. For an entry that holds no newline and none of the four
  characters beyond ASCII that the class matches, \<open>is_valid_hostname\<close> accepts the entry
  exactly when the entry as given (its trailing dots included) is at most 255 characters
  long and, all trailing dots removed, every label between dots has 1 to 63 ASCII
  letters, digits and hyphens with no hyphen first or last. \<open>fqdns\<close> raises the module's
  error for the first entry that the validation does not accept and otherwise returns
  the entries sorted. \<open>-bad.example.com\<close> is rejected, \<open>good.example.com\<close> is accepted,
  and every entry longer than 255 characters, a label of 256 characters among them, is
  rejected.
\<close>

theorem fqdns_hostname_rule:
  "(newline \<notin> set host \<and> set host \<inter> set case_folded = {} \<longrightarrow>
      (is_valid_hostname host \<longleftrightarrow>
         length host \<le> 255 \<and>
         (\<forall>l \<in> set (str_split dot (str_rstrip dot host)).
            1 \<le> length l \<and> length l \<le> 63 \<and> list_all ldh_ascii l \<and> hd l \<noteq> hyphen \<and> last l \<noteq> hyphen)))
   \<and> MP_fqdns (Some xs) =
       (case find (\<lambda>x. \<not> is_valid_hostname (codes x)) xs of
          None \<Rightarrow> Inr (Some (sort xs))
        | Some x \<Rightarrow> Inl (hostname_error x))
   \<and> \<not> is_valid_hostname (codes ''-bad.example.com'')
   \<and> is_valid_hostname (codes ''good.example.com'')
   \<and> (255 < length host \<longrightarrow> \<not> is_valid_hostname host)"
proof -
  have 1: "is_valid_hostname host \<longleftrightarrow>
         length host \<le> 255 \<and>
         (\<forall>l \<in> set (str_split dot (str_rstrip dot host)).
            1 \<le> length l \<and> length l \<le> 63 \<and> list_all ldh_ascii l \<and> hd l \<noteq> hyphen \<and> last l \<noteq> hyphen)"
    if h: "newline \<notin> set host \<and> set host \<inter> set case_folded = {}"
  proof -
    have "allowed_match l \<longleftrightarrow>
           1 \<le> length l \<and> length l \<le> 63 \<and> list_all ldh_ascii l \<and> hd l \<noteq> hyphen \<and> last l \<noteq> hyphen"
      if l: "l \<in> set (str_split dot (str_rstrip dot host))" for l
    proof -
      have "set l \<subseteq> set host"
        using str_split_subset [OF l] str_rstrip_subset [of dot host] by blast
      with h have "newline \<notin> set l" "set l \<inter> set case_folded = {}" by auto
      then show ?thesis by (rule label_rule)
    qed
    then show ?thesis
      unfolding is_valid_hostname_def list_all_iff by auto
  qed
  have 2: "MP_fqdns (Some xs) =
       (case find (\<lambda>x. \<not> is_valid_hostname (codes x)) xs of
          None \<Rightarrow> Inr (Some (sort xs))
        | Some x \<Rightarrow> Inl (hostname_error x))"
    by (simp add: MP_fqdns_def fqdns_loop_find split: option.split)
  have 3: "\<not> is_valid_hostname (codes ''-bad.example.com'')" by code_simp
  have 4: "is_valid_hostname (codes ''good.example.com'')" by code_simp
  have 5: "255 < length host \<longrightarrow> \<not> is_valid_hostname host"
    by (simp add: is_valid_hostname_def)
  from 1 2 3 4 5 show ?thesis by blast
qed

text \<open>
  The rule at work (claim C5): \<open>mit.edu.\<close> is accepted through its two labels, \<open>a..b\<close> is
  rejected for its empty label, two valid hostnames are returned sorted, the first
  invalid entry of a list is the one the error names, and 256 letters are rejected.
\<close>

theorem fqdns_hostname_rule_witness:
  "is_valid_hostname (codes ''mit.edu.'')
   \<and> \<not> is_valid_hostname (codes ''a..b'')
   \<and> MP_fqdns (Some [''mit.edu'', ''google.com'']) = Inr (Some [''google.com'', ''mit.edu''])
   \<and> MP_fqdns (Some [''mit.edu'', ''-bad.example.com'', ''a..b'']) = Inl (hostname_error ''-bad.example.com'')
   \<and> \<not> is_valid_hostname (replicate 256 97)"
proof -
  note t1 = fqdns_hostname_rule [of "codes ''mit.edu.''" "[''mit.edu'', ''google.com'']"]
  note t2 = fqdns_hostname_rule [of "codes ''a..b''" "[''mit.edu'', ''-bad.example.com'', ''a..b'']"]
  note t3 = fqdns_hostname_rule [of "replicate 256 97" "[]"]
  have h1: "newline \<notin> set (codes ''mit.edu.'') \<and> set (codes ''mit.edu.'') \<inter> set case_folded = {}"
    by code_simp
  have s1: "str_split dot (str_rstrip dot (codes ''mit.edu.'')) = [codes ''mit'', codes ''edu'']"
    by code_simp
  have r1: "length (codes ''mit.edu.'') \<le> 255
            \<and> list_all (\<lambda>l. 1 \<le> length l \<and> length l \<le> 63 \<and> list_all ldh_ascii l \<and> hd l \<noteq> hyphen \<and> last l \<noteq> hyphen)
                 [codes ''mit'', codes ''edu'']"
    by code_simp
  have 1: "is_valid_hostname (codes ''mit.edu.'')"
    using t1 [THEN conjunct1] h1 r1 unfolding s1 by (simp add: list_all_iff)
  have h2: "newline \<notin> set (codes ''a..b'') \<and> set (codes ''a..b'') \<inter> set case_folded = {}"
    by code_simp
  have s2: "str_split dot (str_rstrip dot (codes ''a..b'')) = [codes ''a'', [], codes ''b'']"
    by code_simp
  have 2: "\<not> is_valid_hostname (codes ''a..b'')"
    using t2 [THEN conjunct1] h2 unfolding s2 by simp
  have a: "find (\<lambda>x. \<not> is_valid_hostname (codes x)) [''mit.edu'', ''google.com''] = None" by code_simp
  have b: "find (\<lambda>x. \<not> is_valid_hostname (codes x)) [''mit.edu'', ''-bad.example.com'', ''a..b'']
            = Some ''-bad.example.com''" by code_simp
  have c: "sort [''mit.edu'', ''google.com''] = [''google.com'', ''mit.edu'']" by code_simp
  have l: "255 < length (replicate 256 (97::int))" by simp
  have 3: "MP_fqdns (Some [''mit.edu'', ''google.com'']) = Inr (Some [''google.com'', ''mit.edu''])"
    using t1 [THEN conjunct2, THEN conjunct1] by (simp only: a c option.case)
  have 4: "MP_fqdns (Some [''mit.edu'', ''-bad.example.com'', ''a..b'']) = Inl (hostname_error ''-bad.example.com'')"
    using t2 [THEN conjunct2, THEN conjunct1] by (simp only: b option.case)
  have 5: "\<not> is_valid_hostname (replicate 256 97)"
    using t3 [THEN conjunct2, THEN conjunct2, THEN conjunct2, THEN conjunct2] l by blast
  from 1 2 3 4 5 show ?thesis by blast
qed

text \<open>
  Claim C5 as the specification words it fails on two entries. Four labels of 63
  letters with a trailing dot are 256 characters long and 255 without the dot: the
  specification's rule accepts the entry, the code measures it before the dot is removed
  and rejects it. The code removes every trailing dot, so it accepts
  \<open>good.example.com..\<close>, which the specification's rule rejects.
\<close>

theorem hostname_rule_counterexample:
  "spec_valid_hostname (concat (replicate 4 (replicate 63 97 @ [dot])))
   \<and> \<not> is_valid_hostname (concat (replicate 4 (replicate 63 97 @ [dot])))
   \<and> \<not> spec_valid_hostname (codes ''good.example.com..'')
   \<and> is_valid_hostname (codes ''good.example.com..'')"
  by code_simp

text \<open>
  The docstring of \<open>is_valid_hostname\<close> states the rule of letters, digits and hyphens.
  Against it, the regular expression accepts a label followed by a newline, since \<open>$\<close>
  also matches before a newline that ends the text, and a label with one of the four
  characters that case-insensitive matching folds to an ASCII letter. The theorem of
  claim C5 says nothing of such entries.
\<close>

lemma hostname_slips:
  "is_valid_hostname (codes ''good.example.com'' @ [newline])
   \<and> is_valid_hostname (383 # codes ''.com'')
   \<and> is_valid_hostname (8490 # codes ''.com'')"
  by code_simp

section \<open>Countries of \<open>geo_locations\<close>\<close>

text \<open>
  Claim C1 says that a country given by its full name is resolved to its code through
  the country table, so that \<open>United States\<close> and \<open>US\<close> both yield the entry \<open>US\<close>.
  \<open>geo_locations\<close> never reads the table: the country \<open>United States\<close> yields the
  entry \<open>United States\<close>, although the table maps that name to \<open>US\<close>.
\<close>

theorem geo_country_name_kept:
  "MP_geo_locations (Some [\<lparr>country = ''United States'', region = None\<rparr>]) = Some [''United States'']
   \<and> MP_geo_locations (Some [\<lparr>country = ''US'', region = None\<rparr>]) = Some [''US'']
   \<and> map_of country_iso_map ''United States'' = Some ''US''"
  by code_simp

section \<open>Sorting, splitting and the range loop\<close>

text \<open>
  Two lists sort to the same list exactly when they have the same elements with the
  same multiplicities.
\<close>

lemma sort_eq_iff_mset:
  fixes w h :: "'a::linorder list"
  shows "sort w = sort h \<longleftrightarrow> mset w = mset h"
proof
  assume "sort w = sort h"
  then have "mset (sort w) = mset (sort h)" by simp
  then show "mset w = mset h" by simp
next
  assume "mset w = mset h"
  then have "mset (sort w) = mset h" by simp
  then have "sort h = sort w" by (rule properties_for_sort) simp
  then show "sort w = sort h" by simp
qed

lemma sorted_eq_iff_mset:
  fixes w h :: "'a::linorder list"
  assumes "sorted w" "sorted h"
  shows "w = h \<longleftrightarrow> mset w = mset h"
  using assms sort_eq_iff_mset [of w h] by (simp add: sorted_sort_id)

lemma sorted_compare_mset:
  "sorted_compare (Some w) (Some h) = (if mset w = mset h then None else Some w)"
  by (simp add: sorted_compare_def sort_eq_iff_mset)

lemma sort_Nil_iff: "([] = sort xs) = (xs = [])" "(sort xs = []) = (xs = [])"
  by (metis length_sort length_0_conv)+

text \<open>
  Splitting at a separator that occurs once gives the two sides.
\<close>

lemma str_split_no_sep: "sep \<notin> set b \<Longrightarrow> str_split sep b = [b]"
  by (induction b) auto

lemma str_split_at_sep:
  "sep \<notin> set a \<Longrightarrow> str_split sep (a @ sep # b) = a # str_split sep b"
  by (induction a) auto

lemma str_split_pair:
  "CHR ''-'' \<notin> set a \<Longrightarrow> CHR ''-'' \<notin> set b \<Longrightarrow> str_split CHR ''-'' (a @ ''-'' @ b) = [a, b]"
  by (simp add: str_split_at_sep str_split_no_sep)

text \<open>
  The range loop returns the items of its entries in order, and fails with the error of
  the first entry that fails.
\<close>

lemma ranges_loop_map:
  "\<forall>x\<in>set xs. range_item na x = Inr (f x) \<Longrightarrow> ranges_loop na acc xs = Inr (acc @ map f xs)"
  by (induction xs arbitrary: acc) auto

lemma ranges_loop_first_error:
  "ranges_loop na acc pre = Inr r \<Longrightarrow> range_item na e = Inl err \<Longrightarrow>
     ranges_loop na acc (pre @ e # post) = Inl err"
  by (induction pre arbitrary: acc) (auto split: sum.splits)

lemma ranges_loop_error_item:
  "ranges_loop na acc xs = Inl err \<Longrightarrow> \<exists>e\<in>set xs. range_item na e = Inl err"
  by (induction xs arbitrary: acc) (auto split: sum.splits)

section \<open>The differ on collections\<close>

text \<open>
  Claim C4, as the code has it. For every collection field (\<open>addresses\<close>,
  \<open>address_ranges\<close>, \<open>address_lists\<close>, \<open>fqdns\<close>, \<open>geo_locations\<close>) with both the
  desired and the live value present, the differ compares the sorted collections, which is
  equality of multisets: when the two hold the same elements with the same
  multiplicities, in any order, no change is reported; otherwise the whole desired
  collection is the change.
\<close>

theorem differ_compares_multisets:
  "sorted_compare (Some w) (Some h) = (if mset w = mset h then None else Some w)
   \<and> (MP_addresses na (p_addresses want) = Inr (Some w) \<and> AP_addresses hav = Some h \<longrightarrow>
        Difference_addresses na want hav = Inr (if mset w = mset h then None else Some w))
   \<and> (MP_address_ranges na (p_address_ranges want) = Inr (Some w) \<and> AP_address_ranges hav = Some h \<longrightarrow>
        Difference_address_ranges na want hav = Inr (if mset w = mset h then None else Some w))
   \<and> (MP_address_lists (p_partition want) (p_address_lists want) = Some w \<and> AP_address_lists hav = Some h \<longrightarrow>
        Difference_address_lists want hav = (if mset w = mset h then None else Some w))
   \<and> (MP_fqdns (p_fqdns want) = Inr (Some w) \<and> AP_fqdns hav = Some h \<longrightarrow>
        Difference_fqdns want hav = Inr (if mset w = mset h then None else Some w))
   \<and> (MP_geo_locations (p_geo_locations want) = Some w \<and> AP_geo_locations hav = Some h \<longrightarrow>
        Difference_geo_locations want hav = (if mset w = mset h then None else Some w))"
proof -
  have geo: "Difference_geo_locations want hav = (if mset w = mset h then None else Some w)"
    if w: "MP_geo_locations (p_geo_locations want) = Some w" and h: "AP_geo_locations hav = Some h"
  proof -
    have "sorted w" using w by (auto simp: MP_geo_locations_def split: option.splits)
    moreover have "sorted h" using h by (auto simp: AP_geo_locations_def split: option.splits)
    ultimately have "w = h \<longleftrightarrow> mset w = mset h" by (rule sorted_eq_iff_mset)
    then show ?thesis by (auto simp: Difference_geo_locations_def default_compare_def w h)
  qed
  show ?thesis
    by (simp add: sorted_compare_mset Difference_addresses_def Difference_address_ranges_def
        Difference_address_lists_def Difference_fqdns_def geo)
qed

text \<open>
  The two examples of the specification: desired \<open>[1.1.1.1, 2.2.2.2]\<close> against live
  \<open>[2.2.2.2, 1.1.1.1]\<close> is no change; desired \<open>[1.1.1.1]\<close> against the same live value
  is the change \<open>[1.1.1.1]\<close>.
\<close>

theorem differ_compares_multisets_witness:
  "Difference_addresses sample_netaddr ((only_name ''foo'')\<lparr>p_addresses := Some [''1.1.1.1'', ''2.2.2.2'']\<rparr>)
      (no_attrs\<lparr>a_addresses := Some [named ''2.2.2.2'', named ''1.1.1.1'']\<rparr>) = Inr None
   \<and> Difference_addresses sample_netaddr ((only_name ''foo'')\<lparr>p_addresses := Some [''1.1.1.1'']\<rparr>)
      (no_attrs\<lparr>a_addresses := Some [named ''2.2.2.2'', named ''1.1.1.1'']\<rparr>) = Inr (Some [''1.1.1.1''])"
proof -
  let ?hav = "no_attrs\<lparr>a_addresses := Some [named ''2.2.2.2'', named ''1.1.1.1'']\<rparr>"
  let ?w1 = "(only_name ''foo'')\<lparr>p_addresses := Some [''1.1.1.1'', ''2.2.2.2'']\<rparr>"
  let ?w2 = "(only_name ''foo'')\<lparr>p_addresses := Some [''1.1.1.1'']\<rparr>"
  have h: "AP_addresses ?hav = Some [''1.1.1.1'', ''2.2.2.2'']" by code_simp
  have w1: "MP_addresses sample_netaddr (p_addresses ?w1) = Inr (Some [''1.1.1.1'', ''2.2.2.2''])"
    by code_simp
  have w2: "MP_addresses sample_netaddr (p_addresses ?w2) = Inr (Some [''1.1.1.1''])"
    by code_simp
  have 1: "Difference_addresses sample_netaddr ?w1 ?hav = Inr None"
    using differ_compares_multisets [of "[''1.1.1.1'', ''2.2.2.2'']" "[''1.1.1.1'', ''2.2.2.2'']"
        sample_netaddr ?w1 ?hav, THEN conjunct2, THEN conjunct1] w1 h by simp
  have 2: "Difference_addresses sample_netaddr ?w2 ?hav = Inr (Some [''1.1.1.1''])"
    using differ_compares_multisets [of "[''1.1.1.1'']" "[''1.1.1.1'', ''2.2.2.2'']"
        sample_netaddr ?w2 ?hav, THEN conjunct2, THEN conjunct1] w2 h by simp
  from 1 2 show ?thesis by blast
qed

text \<open>
  Claim C4 as the specification words it, equality of sets, fails: desired
  \<open>[1.1.1.1, 1.1.1.1]\<close> and live \<open>[1.1.1.1]\<close> are the same set, and the differ reports
  the desired collection as a change.
\<close>

theorem differ_set_equality_counterexample:
  "set [''1.1.1.1'', ''1.1.1.1''] = set [''1.1.1.1'']
   \<and> Difference_addresses sample_netaddr ((only_name ''foo'')\<lparr>p_addresses := Some [''1.1.1.1'', ''1.1.1.1'']\<rparr>)
        (no_attrs\<lparr>a_addresses := Some [named ''1.1.1.1'']\<rparr>) = Inr (Some [''1.1.1.1'', ''1.1.1.1''])"
proof -
  have "Difference_addresses sample_netaddr ((only_name ''foo'')\<lparr>p_addresses := Some [''1.1.1.1'', ''1.1.1.1'']\<rparr>)
        (no_attrs\<lparr>a_addresses := Some [named ''1.1.1.1'']\<rparr>) = Inr (Some [''1.1.1.1'', ''1.1.1.1''])"
    by code_simp
  then show ?thesis by simp
qed

section \<open>Ranges in the live state\<close>

text \<open>
  Claim C2, as the code has it. From the device's array, \<open>ApiParameters.address_ranges\<close>
  keeps the names that contain a dash, strips the whitespace around each and sorts them:
  the result is sorted and holds exactly these stripped names. No endpoint is parsed,
  checked or swapped, so nothing can fail. The result is what the canonicalizer returns
  for the same names when every range on the device is already in canonical form.
\<close>

theorem snapshot_ranges_keep_text:
  "(a_addresses a = None \<longrightarrow> AP_address_ranges a = None)
   \<and> (\<forall>es. a_addresses a = Some es \<longrightarrow>
        (\<exists>rs. AP_address_ranges a = Some rs \<and> sorted rs
           \<and> mset rs = mset (map (\<lambda>e. str_strip (name e)) (filter (\<lambda>e. has_dash (name e)) es))
           \<and> ((\<forall>e\<in>set es. has_dash (name e) \<longrightarrow> range_item na (name e) = Inr (str_strip (name e)))
                \<longrightarrow> MP_address_ranges na (Some (map name (filter (\<lambda>e. has_dash (name e)) es))) = Inr (Some rs))))"
proof (intro conjI allI impI)
  assume "a_addresses a = None"
  then show "AP_address_ranges a = None" by (simp add: AP_address_ranges_def)
next
  fix es assume es: "a_addresses a = Some es"
  let ?rs = "sort (map (\<lambda>e. str_strip (name e)) (filter (\<lambda>e. has_dash (name e)) es))"
  have 1: "AP_address_ranges a = Some ?rs" by (simp add: AP_address_ranges_def es)
  have 2: "(\<forall>e\<in>set es. has_dash (name e) \<longrightarrow> range_item na (name e) = Inr (str_strip (name e)))
                \<longrightarrow> MP_address_ranges na (Some (map name (filter (\<lambda>e. has_dash (name e)) es))) = Inr (Some ?rs)"
  proof
    assume c: "\<forall>e\<in>set es. has_dash (name e) \<longrightarrow> range_item na (name e) = Inr (str_strip (name e))"
    then have "\<forall>x\<in>set (map name (filter (\<lambda>e. has_dash (name e)) es)). range_item na x = Inr (str_strip x)"
      by auto
    then have "ranges_loop na [] (map name (filter (\<lambda>e. has_dash (name e)) es))
                 = Inr ([] @ map str_strip (map name (filter (\<lambda>e. has_dash (name e)) es)))"
      by (rule ranges_loop_map)
    then show "MP_address_ranges na (Some (map name (filter (\<lambda>e. has_dash (name e)) es))) = Inr (Some ?rs)"
      by (simp add: MP_address_ranges_def comp_def)
  qed
  show "\<exists>rs. AP_address_ranges a = Some rs \<and> sorted rs
           \<and> mset rs = mset (map (\<lambda>e. str_strip (name e)) (filter (\<lambda>e. has_dash (name e)) es))
           \<and> ((\<forall>e\<in>set es. has_dash (name e) \<longrightarrow> range_item na (name e) = Inr (str_strip (name e)))
                \<longrightarrow> MP_address_ranges na (Some (map name (filter (\<lambda>e. has_dash (name e)) es))) = Inr (Some rs))"
    using 1 2 by (intro exI[of _ ?rs]) simp
qed

text \<open>
  A device array with one address and one range in canonical form, written with spaces
  around it (claim C2): the live state holds the stripped range, as the canonicalizer
  returns it.
\<close>

theorem snapshot_ranges_keep_text_witness:
  "(\<exists>rs. AP_address_ranges (no_attrs\<lparr>a_addresses := Some [named ''3.3.3.3'', named '' 1.1.1.1-2.2.2.2 '']\<rparr>) = Some rs
         \<and> sorted rs \<and> mset rs = {#''1.1.1.1-2.2.2.2''#}
         \<and> MP_address_ranges sample_netaddr (Some ['' 1.1.1.1-2.2.2.2 '']) = Inr (Some rs))"
proof -
  let ?es = "[named ''3.3.3.3'', named '' 1.1.1.1-2.2.2.2 '']"
  let ?a = "no_attrs\<lparr>a_addresses := Some ?es\<rparr>"
  have a: "a_addresses ?a = Some ?es" by simp
  have f: "filter (\<lambda>e. has_dash (name e)) ?es = [named '' 1.1.1.1-2.2.2.2 '']" by code_simp
  have s: "str_strip '' 1.1.1.1-2.2.2.2 '' = ''1.1.1.1-2.2.2.2''" by code_simp
  have n: "name (named '' 1.1.1.1-2.2.2.2 '') = '' 1.1.1.1-2.2.2.2 ''" by (simp add: named_def)
  have r: "range_item sample_netaddr '' 1.1.1.1-2.2.2.2 '' = Inr ''1.1.1.1-2.2.2.2''" by code_simp
  have c: "\<forall>e\<in>set ?es. has_dash (name e) \<longrightarrow> range_item sample_netaddr (name e) = Inr (str_strip (name e))"
  proof -
    have "\<not> has_dash (name (named ''3.3.3.3''))" by code_simp
    then show ?thesis by (simp add: n r s)
  qed
  from snapshot_ranges_keep_text [of ?a sample_netaddr, THEN conjunct2, rule_format, OF a]
  obtain rs where rs: "AP_address_ranges ?a = Some rs" "sorted rs"
      "mset rs = mset (map (\<lambda>e. str_strip (name e)) (filter (\<lambda>e. has_dash (name e)) ?es))"
      "(\<forall>e\<in>set ?es. has_dash (name e) \<longrightarrow> range_item sample_netaddr (name e) = Inr (str_strip (name e)))
         \<longrightarrow> MP_address_ranges sample_netaddr (Some (map name (filter (\<lambda>e. has_dash (name e)) ?es))) = Inr (Some rs)"
    by blast
  from rs(3) have m: "mset rs = {#''1.1.1.1-2.2.2.2''#}" unfolding f by (simp add: n s)
  from rs(4) c have "MP_address_ranges sample_netaddr (Some (map name (filter (\<lambda>e. has_dash (name e)) ?es))) = Inr (Some rs)"
    by blast
  then have "MP_address_ranges sample_netaddr (Some ['' 1.1.1.1-2.2.2.2 '']) = Inr (Some rs)"
    unfolding f by (simp add: n)
  with rs(1,2) m show ?thesis by blast
qed

text \<open>
  Claim C2 as the specification words it fails: from a device that holds the range
  \<open>2.2.2.2-1.1.1.1\<close> the live state keeps the text as it is, where the canonicalizer
  swaps the endpoints; and it keeps \<open>1.1.1.1-::1\<close>, where the canonicalizer fails on the
  mixed versions.
\<close>

theorem snapshot_ranges_counterexample:
  "AP_address_ranges (no_attrs\<lparr>a_addresses := Some [named ''2.2.2.2-1.1.1.1'']\<rparr>) = Some [''2.2.2.2-1.1.1.1'']
   \<and> MP_address_ranges sample_netaddr (Some [''2.2.2.2-1.1.1.1'']) = Inr (Some [''1.1.1.1-2.2.2.2''])
   \<and> AP_address_ranges (no_attrs\<lparr>a_addresses := Some [named ''1.1.1.1-::1'']\<rparr>) = Some [''1.1.1.1-::1'']
   \<and> MP_address_ranges sample_netaddr (Some [''1.1.1.1-::1'']) = Inl range_version_error"
  by code_simp

section \<open>Ranges in the desired state\<close>

text \<open>
  Claim C6. For two addresses of the same version, written without a dash, the ranges
  \<open>a-b\<close> and \<open>b-a\<close> canonicalize to the same entry \<open>lo-hi\<close>, where \<open>lo\<close> and \<open>hi\<close> are the
  two addresses with the value of \<open>lo\<close> at most that of \<open>hi\<close>.
\<close>

theorem range_order_independent:
  assumes "CHR ''-'' \<notin> set a" and "CHR ''-'' \<notin> set b"
    and "IPAddress na (str_strip a) = Inr x" and "IPAddress na (str_strip b) = Inr y"
    and "version x = version y"
  shows "MP_address_ranges na (Some [a @ ''-'' @ b]) = MP_address_ranges na (Some [b @ ''-'' @ a])
         \<and> (\<exists>lo hi. {lo, hi} = {x, y} \<and> ip_value lo \<le> ip_value hi
               \<and> MP_address_ranges na (Some [a @ ''-'' @ b]) = Inr (Some [ip_str na lo @ ''-'' @ ip_str na hi]))"
proof -
  have ab: "str_split CHR ''-'' (a @ CHR ''-'' # b) = [a, b]"
    using str_split_pair [OF assms(1,2)] by simp
  have ba: "str_split CHR ''-'' (b @ CHR ''-'' # a) = [b, a]"
    using str_split_pair [OF assms(2,1)] by simp
  have xy: "x = y" if "ip_value x = ip_value y"
    using that assms(5) by simp
  show ?thesis
  proof (cases "ip_value x \<le> ip_value y")
    case True
    have 1: "range_item na (a @ ''-'' @ b) = Inr (ip_str na x @ ''-'' @ ip_str na y)"
      using True assms(3-5) by (simp add: range_item_def ab ip_gt_def)
    have 2: "range_item na (b @ ''-'' @ a) = Inr (ip_str na x @ ''-'' @ ip_str na y)"
    proof (cases "ip_value x = ip_value y")
      case same: True
      then have "x = y" by (rule xy)
      with assms(3,4) show ?thesis by (simp add: range_item_def ba ip_gt_def)
    next
      case False
      with True assms(3-5) show ?thesis by (simp add: range_item_def ba ip_gt_def)
    qed
    have "{x, y} = {x, y} \<and> ip_value x \<le> ip_value y
            \<and> MP_address_ranges na (Some [a @ ''-'' @ b]) = Inr (Some [ip_str na x @ ''-'' @ ip_str na y])"
      using True 1 by (simp add: MP_address_ranges_def)
    then have "\<exists>lo hi. {lo, hi} = {x, y} \<and> ip_value lo \<le> ip_value hi
               \<and> MP_address_ranges na (Some [a @ ''-'' @ b]) = Inr (Some [ip_str na lo @ ''-'' @ ip_str na hi])"
      by blast
    moreover have "MP_address_ranges na (Some [a @ ''-'' @ b]) = MP_address_ranges na (Some [b @ ''-'' @ a])"
      using 1 2 by (simp add: MP_address_ranges_def)
    ultimately show ?thesis by blast
  next
    case False
    have 1: "range_item na (a @ ''-'' @ b) = Inr (ip_str na y @ ''-'' @ ip_str na x)"
      using False assms(3-5) by (simp add: range_item_def ab ip_gt_def)
    have 2: "range_item na (b @ ''-'' @ a) = Inr (ip_str na y @ ''-'' @ ip_str na x)"
      using False assms(3-5) by (simp add: range_item_def ba ip_gt_def)
    have "{y, x} = {x, y} \<and> ip_value y \<le> ip_value x
            \<and> MP_address_ranges na (Some [a @ ''-'' @ b]) = Inr (Some [ip_str na y @ ''-'' @ ip_str na x])"
      using False 1 by (auto simp: MP_address_ranges_def)
    then have "\<exists>lo hi. {lo, hi} = {x, y} \<and> ip_value lo \<le> ip_value hi
               \<and> MP_address_ranges na (Some [a @ ''-'' @ b]) = Inr (Some [ip_str na lo @ ''-'' @ ip_str na hi])"
      by blast
    moreover have "MP_address_ranges na (Some [a @ ''-'' @ b]) = MP_address_ranges na (Some [b @ ''-'' @ a])"
      using 1 2 by (simp add: MP_address_ranges_def)
    ultimately show ?thesis by blast
  qed
qed

text \<open>
  \<open>2.2.2.2-1.1.1.1\<close> and \<open>1.1.1.1-2.2.2.2\<close> both canonicalize to \<open>1.1.1.1-2.2.2.2\<close>.
\<close>

theorem range_order_independent_witness:
  "MP_address_ranges sample_netaddr (Some [''2.2.2.2-1.1.1.1'']) = Inr (Some [''1.1.1.1-2.2.2.2''])
   \<and> MP_address_ranges sample_netaddr (Some [''1.1.1.1-2.2.2.2'']) = Inr (Some [''1.1.1.1-2.2.2.2''])"
proof -
  let ?x = "\<lparr>version = 4, ip_value = 33686018\<rparr>" and ?y = "\<lparr>version = 4, ip_value = 16843009\<rparr>"
  have a: "CHR ''-'' \<notin> set ''2.2.2.2''" and b: "CHR ''-'' \<notin> set ''1.1.1.1''" by simp_all
  have x: "IPAddress sample_netaddr (str_strip ''2.2.2.2'') = Inr ?x" by code_simp
  have y: "IPAddress sample_netaddr (str_strip ''1.1.1.1'') = Inr ?y" by code_simp
  have v: "version ?x = version ?y" by simp
  have sx: "ip_str sample_netaddr ?x = ''2.2.2.2''" by code_simp
  have sy: "ip_str sample_netaddr ?y = ''1.1.1.1''" by code_simp
  from range_order_independent [OF a b x y v]
  obtain lo hi where eq: "MP_address_ranges sample_netaddr (Some [''2.2.2.2'' @ ''-'' @ ''1.1.1.1''])
        = MP_address_ranges sample_netaddr (Some [''1.1.1.1'' @ ''-'' @ ''2.2.2.2''])"
    and lh: "{lo, hi} = {?x, ?y}" "ip_value lo \<le> ip_value hi"
    and r: "MP_address_ranges sample_netaddr (Some [''2.2.2.2'' @ ''-'' @ ''1.1.1.1''])
        = Inr (Some [ip_str sample_netaddr lo @ ''-'' @ ip_str sample_netaddr hi])"
    by blast
  from lh have "lo = ?y \<and> hi = ?x" by (auto simp: doubleton_eq_iff)
  with r have 1: "MP_address_ranges sample_netaddr (Some [''2.2.2.2'' @ ''-'' @ ''1.1.1.1''])
        = Inr (Some [''1.1.1.1'' @ ''-'' @ ''2.2.2.2''])" by (simp only: sx sy)
  with eq have 2: "MP_address_ranges sample_netaddr (Some [''1.1.1.1'' @ ''-'' @ ''2.2.2.2''])
        = Inr (Some [''1.1.1.1'' @ ''-'' @ ''2.2.2.2''])" by simp
  from 1 2 show ?thesis by simp
qed

section \<open>Runs of the reconciler\<close>

text \<open>
  The report built from a change-set without addresses and ranges is empty:
  \<open>ReportableChanges.addresses\<close> raises on the missing value, and \<open>to_return\<close> swallows
  the exception before any field is stored.
\<close>

lemma report_of_no_changes: "RC_to_return na (UC_to_return no_changes) ch = empty_report ch"
  by (simp add: RC_to_return_def UC_to_return_def UC_address_lists_def UC_addresses_def
      no_changes_def RC_addresses_def)

lemma report_without_addresses:
  "c_addresses c = None \<Longrightarrow> c_address_ranges c = None \<Longrightarrow>
     RC_to_return na (UC_to_return c) ch = empty_report ch"
  by (simp add: RC_to_return_def UC_to_return_def UC_addresses_def RC_addresses_def
      split: sum.split)

text \<open>
  With the target state \<open>present\<close>, an exception of the comparisons leaves
  \<open>exec_module\<close> as it is, after the existence check and, for a resource that exists,
  after the read of the live state.
\<close>

lemma present_compare_error:
  assumes "p_state want = StatePresent"
    and "api_exists cl (p_name want) (p_partition want) d = Inr ex"
    and "ex \<longrightarrow> api_load cl (p_name want) (p_partition want) d = Inr cur"
    and "compare_all na want (if ex then cur else no_attrs) = Inl err"
    and "\<forall>m. err \<noteq> iControlUnexpectedHTTPError m"
  shows "exec_module na cl want (new_manager d) =
           (Inl err,
            \<lparr>mm_device = d, mm_calls = (if ex then [CallExists, CallLoad] else [CallExists]),
             mm_have = (if ex then cur else no_attrs), mm_changes = no_changes\<rparr>)"
proof (cases ex)
  case True
  with assms(3,4) have l: "api_load cl (p_name want) (p_partition want) d = Inr cur"
    and c: "compare_all na want cur = Inl err" by simp_all
  have "present na cl want (new_manager d) =
           (Inl err, \<lparr>mm_device = d, mm_calls = [CallExists, CallLoad],
             mm_have = cur, mm_changes = no_changes\<rparr>)"
    using assms(2) True l c
    by (simp add: present_def update_def exists_on_device_def read_current_from_device_def
        should_update_def update_changed_options_def called_def new_manager_def)
  with assms(1,5) True show ?thesis
    by (cases err) (simp_all add: exec_module_def)
next
  case False
  with assms(4) have c: "compare_all na want no_attrs = Inl err" by simp
  have "present na cl want (new_manager d) =
           (Inl err, \<lparr>mm_device = d, mm_calls = [CallExists],
             mm_have = no_attrs, mm_changes = no_changes\<rparr>)"
    using assms(2) False c
    by (simp add: present_def create_def exists_on_device_def
        update_changed_options_def called_def new_manager_def)
  with assms(1,5) False show ?thesis
    by (cases err) (simp_all add: exec_module_def)
qed

lemma compare_all_ranges_error:
  "MP_addresses na (p_addresses want) = Inr w \<Longrightarrow>
   MP_address_ranges na (p_address_ranges want) = Inl err \<Longrightarrow>
   compare_all na want hav = Inl err"
  by (simp add: compare_all_def Difference_addresses_def Difference_address_ranges_def)

text \<open>
  An update of an existing resource with a change-set that is not empty sends the
  parameters of the change-set in one \<open>modify\<close>.
\<close>

lemma present_update_pushes:
  assumes "p_state want = StatePresent" and "\<not> check_mode want"
    and "api_exists cl (p_name want) (p_partition want) d = Inr True"
    and "api_load cl (p_name want) (p_partition want) d = Inr cur"
    and "compare_all na want cur = Inr c" and "c \<noteq> no_changes"
    and "api_params c = Inr ps"
    and "api_modify cl (p_name want) (p_partition want) ps d = Inr d'"
  shows "exec_module na cl want (new_manager d) =
           (Inr (RC_to_return na (UC_to_return c) True),
            \<lparr>mm_device = d', mm_calls = [CallExists, CallLoad, CallLoad, CallModify ps],
             mm_have = cur, mm_changes = c\<rparr>)"
proof -
  let ?st2 = "\<lparr>mm_device = d, mm_calls = [CallExists, CallLoad], mm_have = cur, mm_changes = c\<rparr>"
  have s: "should_update na want \<lparr>mm_device = d, mm_calls = [CallExists, CallLoad],
              mm_have = cur, mm_changes = no_changes\<rparr> = (Inr True, ?st2)"
    using assms(5,6) by (simp add: should_update_def update_changed_options_def)
  have u: "update_on_device cl want ?st2 =
             (Inr (), \<lparr>mm_device = d', mm_calls = [CallExists, CallLoad, CallLoad, CallModify ps],
                       mm_have = cur, mm_changes = c\<rparr>)"
    using assms(4,7,8) by (simp add: update_on_device_def called_def)
  have "present na cl want (new_manager d) =
           (Inr True, \<lparr>mm_device = d', mm_calls = [CallExists, CallLoad, CallLoad, CallModify ps],
             mm_have = cur, mm_changes = c\<rparr>)"
    using assms(2,3,4) s u
    by (simp add: present_def update_def exists_on_device_def read_current_from_device_def
        called_def new_manager_def)
  with assms(1) show ?thesis by (simp add: exec_module_def)
qed

text \<open>
  Claim C9. With the target state \<open>absent\<close>, outside check mode, for a resource that
  exists: the resource is loaded and deleted, the existence check runs again, and the
  run fails with \<open>Failed to delete the resource.\<close> if the resource is still there,
  otherwise it reports a change.
\<close>

theorem absent_deletes_and_rechecks:
  assumes "p_state want = StateAbsent" and "\<not> check_mode want"
    and "api_exists cl (p_name want) (p_partition want) d = Inr True"
    and "api_load cl (p_name want) (p_partition want) d = Inr resource"
    and "api_delete cl (p_name want) (p_partition want) d = Inr d'"
    and "api_exists cl (p_name want) (p_partition want) d' = Inr still"
  shows "exec_module na cl want (new_manager d) =
           (if still then Inl failed_to_delete else Inr (empty_report True),
            \<lparr>mm_device = d', mm_calls = [CallExists, CallLoad, CallDelete, CallExists],
             mm_have = no_attrs, mm_changes = no_changes\<rparr>)"
proof -
  have r: "remove_from_device cl want (called CallExists (new_manager d)) =
             (Inr (), \<lparr>mm_device = d', mm_calls = [CallExists, CallLoad, CallDelete],
                       mm_have = no_attrs, mm_changes = no_changes\<rparr>)"
    using assms(4,5) by (simp add: remove_from_device_def called_def new_manager_def)
  have a: "absent cl want (new_manager d) =
             (if still then Inl failed_to_delete else Inr True,
              \<lparr>mm_device = d', mm_calls = [CallExists, CallLoad, CallDelete, CallExists],
               mm_have = no_attrs, mm_changes = no_changes\<rparr>)"
    using assms(2,3,6) r
    by (simp add: absent_def remove_def exists_on_device_def called_def new_manager_def)
  show ?thesis
    using assms(1) a
    by (simp add: exec_module_def failed_to_delete_def report_of_no_changes)
qed

text \<open>
  On the sample device the delete removes the resource and the run reports a change; on
  the device where the delete removes nothing the run fails.
\<close>

theorem absent_deletes_and_rechecks_witness:
  "exec_module sample_netaddr sample_client ((only_name ''foo'')\<lparr>p_state := StateAbsent\<rparr>)
       (new_manager (Some no_attrs)) =
     (Inr (empty_report True),
      \<lparr>mm_device = None, mm_calls = [CallExists, CallLoad, CallDelete, CallExists],
       mm_have = no_attrs, mm_changes = no_changes\<rparr>)
   \<and> exec_module sample_netaddr stuck_client ((only_name ''foo'')\<lparr>p_state := StateAbsent\<rparr>)
       (new_manager (Some no_attrs)) =
     (Inl failed_to_delete,
      \<lparr>mm_device = Some no_attrs, mm_calls = [CallExists, CallLoad, CallDelete, CallExists],
       mm_have = no_attrs, mm_changes = no_changes\<rparr>)"
proof -
  let ?w = "(only_name ''foo'')\<lparr>p_state := StateAbsent\<rparr>"
  have w: "p_state ?w = StateAbsent" "\<not> check_mode ?w" by (simp_all add: only_name_def)
  have 1: "exec_module sample_netaddr sample_client ?w (new_manager (Some no_attrs)) =
     (if False then Inl failed_to_delete else Inr (empty_report True),
      \<lparr>mm_device = None, mm_calls = [CallExists, CallLoad, CallDelete, CallExists],
       mm_have = no_attrs, mm_changes = no_changes\<rparr>)"
    by (rule absent_deletes_and_rechecks [OF w, where resource = no_attrs])
       (simp_all add: sample_client_def)
  have 2: "exec_module sample_netaddr stuck_client ?w (new_manager (Some no_attrs)) =
     (if True then Inl failed_to_delete else Inr (empty_report True),
      \<lparr>mm_device = Some no_attrs, mm_calls = [CallExists, CallLoad, CallDelete, CallExists],
       mm_have = no_attrs, mm_changes = no_changes\<rparr>)"
    by (rule absent_deletes_and_rechecks [OF w, where resource = no_attrs])
       (simp_all add: stuck_client_def sample_client_def)
  from 1 2 show ?thesis by simp
qed

text \<open>
  Claim C7, as the code has it. When an entry of \<open>address_ranges\<close> has two endpoints of
  different versions and the entries before it canonicalize, the canonicalization
  raises the module's error. With the target state \<open>present\<close> (and valid \<open>addresses\<close>) the
  run fails with that error after the existence check and, for a resource that exists,
  after the read of the live state: no create, modify or delete has been sent, and the
  device is as it was.
\<close>

theorem mixed_range_fails_after_reads:
  assumes "p_state want = StatePresent"
    and "p_address_ranges want = Some (pre @ e # post)"
    and "ranges_loop na [] pre = Inr items"
    and "str_split CHR ''-'' e = [a, b]"
    and "IPAddress na (str_strip a) = Inr x" and "IPAddress na (str_strip b) = Inr y"
    and "version x \<noteq> version y"
    and "MP_addresses na (p_addresses want) = Inr w"
    and "api_exists cl (p_name want) (p_partition want) d = Inr ex"
    and "ex \<longrightarrow> api_load cl (p_name want) (p_partition want) d = Inr cur"
  shows "MP_address_ranges na (p_address_ranges want) = Inl range_version_error
         \<and> exec_module na cl want (new_manager d) =
             (Inl range_version_error,
              \<lparr>mm_device = d, mm_calls = (if ex then [CallExists, CallLoad] else [CallExists]),
               mm_have = (if ex then cur else no_attrs), mm_changes = no_changes\<rparr>)"
proof -
  have "range_item na e = Inl range_version_error"
    using assms(4-7) by (simp add: range_item_def)
  with assms(3) have "ranges_loop na [] (pre @ e # post) = Inl range_version_error"
    by (rule ranges_loop_first_error)
  then have r: "MP_address_ranges na (p_address_ranges want) = Inl range_version_error"
    by (simp add: MP_address_ranges_def assms(2))
  with assms(8) have "compare_all na want (if ex then cur else no_attrs) = Inl range_version_error"
    by (rule compare_all_ranges_error)
  moreover have "\<forall>m. range_version_error \<noteq> iControlUnexpectedHTTPError m"
    by (simp add: range_version_error_def)
  ultimately have "exec_module na cl want (new_manager d) =
             (Inl range_version_error,
              \<lparr>mm_device = d, mm_calls = (if ex then [CallExists, CallLoad] else [CallExists]),
               mm_have = (if ex then cur else no_attrs), mm_changes = no_changes\<rparr>)"
    using assms(1,9,10) by (intro present_compare_error)
  with r show ?thesis by blast
qed

text \<open>
  A run for a resource that does not exist (claim C7): the second range mixes the
  versions, the run fails after the existence check, and the third entry is never
  reached.
\<close>

theorem mixed_range_fails_after_reads_witness:
  "MP_address_ranges sample_netaddr (Some [''3.3.3.3-4.4.4.4'', ''1.1.1.1-::1'', ''x'']) = Inl range_version_error
   \<and> exec_module sample_netaddr sample_client
        ((only_name ''foo'')\<lparr>p_address_ranges := Some [''3.3.3.3-4.4.4.4'', ''1.1.1.1-::1'', ''x'']\<rparr>)
        (new_manager None) =
       (Inl range_version_error,
        \<lparr>mm_device = None, mm_calls = [CallExists], mm_have = no_attrs, mm_changes = no_changes\<rparr>)"
proof -
  let ?w = "(only_name ''foo'')\<lparr>p_address_ranges := Some [''3.3.3.3-4.4.4.4'', ''1.1.1.1-::1'', ''x'']\<rparr>"
  have 1: "p_state ?w = StatePresent" by (simp add: only_name_def)
  have 2: "p_address_ranges ?w = Some ([''3.3.3.3-4.4.4.4''] @ ''1.1.1.1-::1'' # [''x''])" by simp
  have 3: "ranges_loop sample_netaddr [] [''3.3.3.3-4.4.4.4''] = Inr [''3.3.3.3-4.4.4.4'']" by code_simp
  have 4: "str_split CHR ''-'' ''1.1.1.1-::1'' = [''1.1.1.1'', ''::1'']" by code_simp
  have 5: "IPAddress sample_netaddr (str_strip ''1.1.1.1'') = Inr \<lparr>version = 4, ip_value = 16843009\<rparr>"
    by code_simp
  have 6: "IPAddress sample_netaddr (str_strip ''::1'') = Inr \<lparr>version = 6, ip_value = 1\<rparr>"
    by code_simp
  have 7: "version \<lparr>version = 4, ip_value = 16843009\<rparr> \<noteq> version \<lparr>version = 6, ip_value = 1\<rparr>"
    by simp
  have 8: "MP_addresses sample_netaddr (p_addresses ?w) = Inr None"
    by (simp add: only_name_def MP_addresses_def)
  have 9: "api_exists sample_client (p_name ?w) (p_partition ?w) None = Inr False"
    by (simp add: sample_client_def)
  have 10: "False \<longrightarrow> api_load sample_client (p_name ?w) (p_partition ?w) None = Inr no_attrs"
    by simp
  from mixed_range_fails_after_reads [OF 1 2 3 4 5 6 7 8 9 10] show ?thesis by simp
qed

text \<open>
  Claim C7 as the specification words it, failure before any device call, fails: for
  \<open>1.1.1.1-::1\<close> and a resource that exists, the error comes after two calls to the
  device; and with the target state \<open>absent\<close> the ranges are never canonicalized, the
  run deletes the resource and reports a change.
\<close>

theorem mixed_range_device_calls_counterexample:
  "exec_module sample_netaddr sample_client
        ((only_name ''foo'')\<lparr>p_address_ranges := Some [''1.1.1.1-::1'']\<rparr>)
        (new_manager (Some no_attrs)) =
       (Inl range_version_error,
        \<lparr>mm_device = Some no_attrs, mm_calls = [CallExists, CallLoad],
         mm_have = no_attrs, mm_changes = no_changes\<rparr>)
   \<and> exec_module sample_netaddr sample_client
        ((only_name ''foo'')\<lparr>p_address_ranges := Some [''1.1.1.1-::1''], p_state := StateAbsent\<rparr>)
        (new_manager (Some no_attrs)) =
       (Inr (empty_report True),
        \<lparr>mm_device = None, mm_calls = [CallExists, CallLoad, CallDelete, CallExists],
         mm_have = no_attrs, mm_changes = no_changes\<rparr>)"
  by code_simp

text \<open>
  Claim C10. An entry of \<open>address_ranges\<close> that does not split at \<open>-\<close> into exactly two
  parts raises \<open>ValueError\<close>; an endpoint the library rejects raises the library's
  exception (\<open>AddrFormatError\<close> for text that is no address) as it is. An error of an
  entry is one of these, or the module's error for two endpoints of different versions.
  The canonicalization fails with the error of the first entry that fails, every
  failure comes from an entry, and \<open>exec_module\<close> passes the exception on unwrapped.
\<close>

theorem address_ranges_foreign_exceptions:
  "(length (str_split CHR ''-'' e) \<noteq> 2 \<longrightarrow> range_item na e = Inl ValueError)
   \<and> (\<forall>a b. str_split CHR ''-'' e = [a, b] \<and> IPAddress na (str_strip a) = Inl err
          \<longrightarrow> range_item na e = Inl err)
   \<and> (\<forall>a b x. str_split CHR ''-'' e = [a, b] \<and> IPAddress na (str_strip a) = Inr x
            \<and> IPAddress na (str_strip b) = Inl err
          \<longrightarrow> range_item na e = Inl err)
   \<and> (range_item na e = Inl err \<longrightarrow>
         (err = ValueError \<and> length (str_split CHR ''-'' e) \<noteq> 2)
         \<or> (\<exists>a b. str_split CHR ''-'' e = [a, b]
               \<and> (IPAddress na (str_strip a) = Inl err \<or> IPAddress na (str_strip b) = Inl err))
         \<or> (err = range_version_error
               \<and> (\<exists>a b x y. str_split CHR ''-'' e = [a, b] \<and> IPAddress na (str_strip a) = Inr x
                     \<and> IPAddress na (str_strip b) = Inr y \<and> version x \<noteq> version y)))
   \<and> (ranges_loop na [] pre = Inr items \<and> range_item na e = Inl err
         \<longrightarrow> MP_address_ranges na (Some (pre @ e # post)) = Inl err)
   \<and> (\<forall>xs. MP_address_ranges na (Some xs) = Inl err \<longrightarrow> (\<exists>r\<in>set xs. range_item na r = Inl err))
   \<and> (p_state want = StatePresent
        \<and> api_exists cl (p_name want) (p_partition want) d = Inr ex
        \<and> (ex \<longrightarrow> api_load cl (p_name want) (p_partition want) d = Inr cur)
        \<and> MP_addresses na (p_addresses want) = Inr w
        \<and> MP_address_ranges na (p_address_ranges want) = Inl err
        \<and> (\<forall>m. err \<noteq> iControlUnexpectedHTTPError m)
         \<longrightarrow> fst (exec_module na cl want (new_manager d)) = Inl err)"
proof -
  have 1: "length (str_split CHR ''-'' e) \<noteq> 2 \<longrightarrow> range_item na e = Inl ValueError"
    by (auto simp: range_item_def split: list.splits)
  have 2: "\<forall>a b. str_split CHR ''-'' e = [a, b] \<and> IPAddress na (str_strip a) = Inl err
          \<longrightarrow> range_item na e = Inl err"
    by (auto simp: range_item_def)
  have 3: "\<forall>a b x. str_split CHR ''-'' e = [a, b] \<and> IPAddress na (str_strip a) = Inr x
            \<and> IPAddress na (str_strip b) = Inl err
          \<longrightarrow> range_item na e = Inl err"
    by (auto simp: range_item_def)
  have 4: "range_item na e = Inl err \<longrightarrow>
         (err = ValueError \<and> length (str_split CHR ''-'' e) \<noteq> 2)
         \<or> (\<exists>a b. str_split CHR ''-'' e = [a, b]
               \<and> (IPAddress na (str_strip a) = Inl err \<or> IPAddress na (str_strip b) = Inl err))
         \<or> (err = range_version_error
               \<and> (\<exists>a b x y. str_split CHR ''-'' e = [a, b] \<and> IPAddress na (str_strip a) = Inr x
                     \<and> IPAddress na (str_strip b) = Inr y \<and> version x \<noteq> version y))"
    by (auto simp: range_item_def split: list.splits sum.splits if_splits)
  have 5: "ranges_loop na [] pre = Inr items \<and> range_item na e = Inl err
         \<longrightarrow> MP_address_ranges na (Some (pre @ e # post)) = Inl err"
    by (auto simp: MP_address_ranges_def ranges_loop_first_error [of na "[]" pre items e err post])
  have 6: "\<forall>xs. MP_address_ranges na (Some xs) = Inl err \<longrightarrow> (\<exists>r\<in>set xs. range_item na r = Inl err)"
    by (auto simp: MP_address_ranges_def split: sum.splits dest: ranges_loop_error_item)
  have 7: "p_state want = StatePresent
        \<and> api_exists cl (p_name want) (p_partition want) d = Inr ex
        \<and> (ex \<longrightarrow> api_load cl (p_name want) (p_partition want) d = Inr cur)
        \<and> MP_addresses na (p_addresses want) = Inr w
        \<and> MP_address_ranges na (p_address_ranges want) = Inl err
        \<and> (\<forall>m. err \<noteq> iControlUnexpectedHTTPError m)
         \<longrightarrow> fst (exec_module na cl want (new_manager d)) = Inl err"
  proof
    assume h: "p_state want = StatePresent
        \<and> api_exists cl (p_name want) (p_partition want) d = Inr ex
        \<and> (ex \<longrightarrow> api_load cl (p_name want) (p_partition want) d = Inr cur)
        \<and> MP_addresses na (p_addresses want) = Inr w
        \<and> MP_address_ranges na (p_address_ranges want) = Inl err
        \<and> (\<forall>m. err \<noteq> iControlUnexpectedHTTPError m)"
    then have "compare_all na want (if ex then cur else no_attrs) = Inl err"
      by (intro compare_all_ranges_error [of na want w]) simp_all
    with h have "exec_module na cl want (new_manager d) =
           (Inl err,
            \<lparr>mm_device = d, mm_calls = (if ex then [CallExists, CallLoad] else [CallExists]),
             mm_have = (if ex then cur else no_attrs), mm_changes = no_changes\<rparr>)"
      by (intro present_compare_error) simp_all
    then show "fst (exec_module na cl want (new_manager d)) = Inl err" by simp
  qed
  from 1 2 3 4 5 6 7 show ?thesis by (intro conjI)
qed

text \<open>
  Entries with no dash and with two dashes raise \<open>ValueError\<close>, an endpoint that is no
  address raises \<open>AddrFormatError\<close>, and the run ends with the \<open>ValueError\<close> (claim C10).
\<close>

theorem address_ranges_foreign_exceptions_witness:
  "MP_address_ranges sample_netaddr (Some [''1.1.1.1'']) = Inl ValueError
   \<and> MP_address_ranges sample_netaddr (Some [''1.1.1.1-2.2.2.2-3.3.3.3'']) = Inl ValueError
   \<and> MP_address_ranges sample_netaddr (Some [''1.1.1.1-bogus'']) = Inl AddrFormatError
   \<and> fst (exec_module sample_netaddr sample_client
             ((only_name ''foo'')\<lparr>p_address_ranges := Some [''1.1.1.1'']\<rparr>) (new_manager None))
       = Inl ValueError"
proof -
  let ?w = "(only_name ''foo'')\<lparr>p_address_ranges := Some [''1.1.1.1'']\<rparr>"
  have nil: "ranges_loop sample_netaddr [] [] = Inr []" by simp
  note t1 = address_ranges_foreign_exceptions [where e = "''1.1.1.1''" and na = sample_netaddr
      and err = ValueError and pre = "[]" and items = "[]" and post = "[]" and want = ?w
      and cl = sample_client and d = None and ex = False and cur = no_attrs and w = None]
  have l1: "length (str_split CHR ''-'' ''1.1.1.1'') \<noteq> 2" by code_simp
  from t1 l1 have r1: "range_item sample_netaddr ''1.1.1.1'' = Inl ValueError" by blast
  from t1 r1 nil have m1: "MP_address_ranges sample_netaddr (Some ([] @ ''1.1.1.1'' # [])) = Inl ValueError"
    by blast
  have "p_state ?w = StatePresent"
    "api_exists sample_client (p_name ?w) (p_partition ?w) None = Inr False"
    "MP_addresses sample_netaddr (p_addresses ?w) = Inr None"
    "MP_address_ranges sample_netaddr (p_address_ranges ?w) = Inl ValueError"
    using m1 by (simp_all add: only_name_def sample_client_def MP_addresses_def)
  with t1 have e1: "fst (exec_module sample_netaddr sample_client ?w (new_manager None)) = Inl ValueError"
    by simp
  note t2 = address_ranges_foreign_exceptions [where e = "''1.1.1.1-2.2.2.2-3.3.3.3''"
      and na = sample_netaddr and err = ValueError and pre = "[]" and items = "[]" and post = "[]"
      and want = ?w and cl = sample_client and d = None and ex = False and cur = no_attrs and w = None]
  have l2: "length (str_split CHR ''-'' ''1.1.1.1-2.2.2.2-3.3.3.3'') \<noteq> 2" by code_simp
  from t2 l2 have r2: "range_item sample_netaddr ''1.1.1.1-2.2.2.2-3.3.3.3'' = Inl ValueError" by blast
  from t2 r2 nil have m2: "MP_address_ranges sample_netaddr (Some ([] @ ''1.1.1.1-2.2.2.2-3.3.3.3'' # [])) = Inl ValueError"
    by blast
  note t3 = address_ranges_foreign_exceptions [where e = "''1.1.1.1-bogus''"
      and na = sample_netaddr and err = AddrFormatError and pre = "[]" and items = "[]" and post = "[]"
      and want = ?w and cl = sample_client and d = None and ex = False and cur = no_attrs and w = None]
  have s3: "str_split CHR ''-'' ''1.1.1.1-bogus'' = [''1.1.1.1'', ''bogus'']" by code_simp
  have a3: "IPAddress sample_netaddr (str_strip ''1.1.1.1'') = Inr \<lparr>version = 4, ip_value = 16843009\<rparr>"
    by code_simp
  have b3: "IPAddress sample_netaddr (str_strip ''bogus'') = Inl AddrFormatError" by code_simp
  from t3 s3 a3 b3 have r3: "range_item sample_netaddr ''1.1.1.1-bogus'' = Inl AddrFormatError" by blast
  from t3 r3 nil have m3: "MP_address_ranges sample_netaddr (Some ([] @ ''1.1.1.1-bogus'' # [])) = Inl AddrFormatError"
    by blast
  from m1 m2 m3 e1 show ?thesis by simp
qed

text \<open>
  For a field whose desired value is absent, the differ reports no change and the
  change-set has no entry. The parameters built from the change-set then have no
  \<open>addressLists\<close>, \<open>description\<close>, \<open>fqdns\<close> or \<open>geo\<close> for an absent \<open>address_lists\<close>,
  \<open>description\<close>, \<open>fqdns\<close> or \<open>geo_locations\<close>, and no array \<open>addresses\<close> when \<open>addresses\<close>
  and \<open>address_ranges\<close> are both absent.
\<close>

lemma absent_fields_stay_out:
  "(p_addresses want = None \<longrightarrow> Difference_addresses na want hav = Inr None)
   \<and> (p_address_ranges want = None \<longrightarrow> Difference_address_ranges na want hav = Inr None)
   \<and> (p_address_lists want = None \<longrightarrow> Difference_address_lists want hav = None)
   \<and> (p_description want = None \<longrightarrow> Difference_description want hav = None)
   \<and> (p_fqdns want = None \<longrightarrow> Difference_fqdns want hav = Inr None)
   \<and> (p_geo_locations want = None \<longrightarrow> Difference_geo_locations want hav = None)
   \<and> (compare_all na want hav = Inr c \<longrightarrow>
         (p_addresses want = None \<longrightarrow> c_addresses c = None)
       \<and> (p_address_ranges want = None \<longrightarrow> c_address_ranges c = None)
       \<and> (p_address_lists want = None \<longrightarrow> c_address_lists c = None)
       \<and> (p_description want = None \<longrightarrow> c_description c = None)
       \<and> (p_fqdns want = None \<longrightarrow> c_fqdns c = None)
       \<and> (p_geo_locations want = None \<longrightarrow> c_geo_locations c = None)
       \<and> (\<forall>ps. api_params c = Inr ps \<longrightarrow>
             (p_address_lists want = None \<longrightarrow> w_addressLists ps = None)
           \<and> (p_description want = None \<longrightarrow> w_description ps = None)
           \<and> (p_fqdns want = None \<longrightarrow> w_fqdns ps = None)
           \<and> (p_geo_locations want = None \<longrightarrow> w_geo ps = None)
           \<and> (p_addresses want = None \<and> p_address_ranges want = None \<longrightarrow> w_addresses ps = None))
       \<and> (p_addresses want = Some [] \<and> AP_addresses hav \<noteq> None \<and> AP_addresses hav \<noteq> Some []
             \<longrightarrow> c_addresses c = Some []))"
proof -
  have d1: "p_addresses want = None \<longrightarrow> Difference_addresses na want hav = Inr None"
    by (simp add: Difference_addresses_def MP_addresses_def sorted_compare_def)
  have d2: "p_address_ranges want = None \<longrightarrow> Difference_address_ranges na want hav = Inr None"
    by (simp add: Difference_address_ranges_def MP_address_ranges_def sorted_compare_def)
  have d3: "p_address_lists want = None \<longrightarrow> Difference_address_lists want hav = None"
    by (simp add: Difference_address_lists_def MP_address_lists_def sorted_compare_def)
  have d4: "p_description want = None \<longrightarrow> Difference_description want hav = None"
    by (simp add: Difference_description_def default_compare_def)
  have d5: "p_fqdns want = None \<longrightarrow> Difference_fqdns want hav = Inr None"
    by (simp add: Difference_fqdns_def MP_fqdns_def sorted_compare_def)
  have d6: "p_geo_locations want = None \<longrightarrow> Difference_geo_locations want hav = None"
    by (simp add: Difference_geo_locations_def MP_geo_locations_def default_compare_def)
  have c: "(p_addresses want = None \<longrightarrow> c_addresses c = None)
       \<and> (p_address_ranges want = None \<longrightarrow> c_address_ranges c = None)
       \<and> (p_address_lists want = None \<longrightarrow> c_address_lists c = None)
       \<and> (p_description want = None \<longrightarrow> c_description c = None)
       \<and> (p_fqdns want = None \<longrightarrow> c_fqdns c = None)
       \<and> (p_geo_locations want = None \<longrightarrow> c_geo_locations c = None)
       \<and> (\<forall>ps. api_params c = Inr ps \<longrightarrow>
             (p_address_lists want = None \<longrightarrow> w_addressLists ps = None)
           \<and> (p_description want = None \<longrightarrow> w_description ps = None)
           \<and> (p_fqdns want = None \<longrightarrow> w_fqdns ps = None)
           \<and> (p_geo_locations want = None \<longrightarrow> w_geo ps = None)
           \<and> (p_addresses want = None \<and> p_address_ranges want = None \<longrightarrow> w_addresses ps = None))
       \<and> (p_addresses want = Some [] \<and> AP_addresses hav \<noteq> None \<and> AP_addresses hav \<noteq> Some []
             \<longrightarrow> c_addresses c = Some [])"
    if h: "compare_all na want hav = Inr c"
  proof -
    from h obtain a r f where
      a: "Difference_addresses na want hav = Inr a" and
      r: "Difference_address_ranges na want hav = Inr r" and
      f: "Difference_fqdns want hav = Inr f" and
      c: "c = \<lparr>c_addresses = a, c_address_ranges = r,
               c_address_lists = Difference_address_lists want hav,
               c_description = Difference_description want hav,
               c_fqdns = f,
               c_geo_locations = Difference_geo_locations want hav\<rparr>"
      by (auto simp: compare_all_def split: sum.splits)
    have e: "p_addresses want = Some [] \<and> AP_addresses hav \<noteq> None \<and> AP_addresses hav \<noteq> Some []
             \<longrightarrow> a = Some []"
      using a by (auto simp: Difference_addresses_def MP_addresses_def sorted_compare_def
          sort_Nil_iff split: option.splits)
    show ?thesis
      using a r f d1 d2 d3 d4 d5 d6 e unfolding c
      by (auto simp: api_params_def UC_address_lists_def UC_addresses_def split: sum.splits)
  qed
  with d1 d2 d3 d4 d5 d6 show ?thesis by blast
qed

text \<open>
  Claim C8 says that a field the user did not supply is left out of what is sent to
  the device, so that the device keeps its configuration of the field. The differ does
  leave the field out, but \<open>UsableChanges.addresses\<close> builds the device's one array of
  addresses and ranges from the change-set alone. In the run below \<open>addresses\<close> is
  supplied and \<open>address_ranges\<close> is not: the update sends an array with the desired
  address only, and the range the device held is gone.
\<close>

theorem absent_ranges_overwritten:
  "p_address_ranges ((only_name ''foo'')\<lparr>p_addresses := Some [''1.1.1.1'']\<rparr>) = None
   \<and> AP_address_ranges (no_attrs\<lparr>a_addresses := Some [named ''2.2.2.2'', named ''3.3.3.3-4.4.4.4'']\<rparr>)
       = Some [''3.3.3.3-4.4.4.4'']
   \<and> exec_module sample_netaddr sample_client ((only_name ''foo'')\<lparr>p_addresses := Some [''1.1.1.1'']\<rparr>)
       (new_manager (Some (no_attrs\<lparr>a_addresses := Some [named ''2.2.2.2'', named ''3.3.3.3-4.4.4.4'']\<rparr>)))
       = (Inr ((empty_report True)\<lparr>r_addresses := Some [''1.1.1.1''], r_address_ranges := Some []\<rparr>),
          \<lparr>mm_device = Some (no_attrs\<lparr>a_addresses := Some [named ''1.1.1.1'']\<rparr>),
           mm_calls = [CallExists, CallLoad, CallLoad,
                       CallModify \<lparr>w_addressLists = None, w_addresses = Some [named ''1.1.1.1''],
                                   w_description = None, w_fqdns = None, w_geo = None\<rparr>],
           mm_have = no_attrs\<lparr>a_addresses := Some [named ''2.2.2.2'', named ''3.3.3.3-4.4.4.4'']\<rparr>,
           mm_changes = no_changes\<lparr>c_addresses := Some [''1.1.1.1'']\<rparr>\<rparr>)
   \<and> AP_address_ranges (no_attrs\<lparr>a_addresses := Some [named ''1.1.1.1'']\<rparr>) = Some []"
  by code_simp

text \<open>
  The same defect with both fields supplied: a run that finds only the ranges to differ
  sends the ranges alone and removes the addresses; the next run finds only the
  addresses to differ, sends them alone and removes the ranges. The two states of the
  device follow each other without end.
\<close>

lemma supplied_fields_alternate:
  "exec_module sample_netaddr sample_client
       ((only_name ''foo'')\<lparr>p_addresses := Some [''1.1.1.1''], p_address_ranges := Some [''3.3.3.3-4.4.4.4'']\<rparr>)
       (new_manager (Some (no_attrs\<lparr>a_addresses := Some [named ''1.1.1.1'']\<rparr>)))
     = (Inr ((empty_report True)\<lparr>r_addresses := Some [], r_address_ranges := Some [''3.3.3.3-4.4.4.4'']\<rparr>),
        \<lparr>mm_device = Some (no_attrs\<lparr>a_addresses := Some [named ''3.3.3.3-4.4.4.4'']\<rparr>),
         mm_calls = [CallExists, CallLoad, CallLoad,
                     CallModify \<lparr>w_addressLists = None, w_addresses = Some [named ''3.3.3.3-4.4.4.4''],
                                 w_description = None, w_fqdns = None, w_geo = None\<rparr>],
         mm_have = no_attrs\<lparr>a_addresses := Some [named ''1.1.1.1'']\<rparr>,
         mm_changes = no_changes\<lparr>c_address_ranges := Some [''3.3.3.3-4.4.4.4'']\<rparr>\<rparr>)
   \<and> exec_module sample_netaddr sample_client
       ((only_name ''foo'')\<lparr>p_addresses := Some [''1.1.1.1''], p_address_ranges := Some [''3.3.3.3-4.4.4.4'']\<rparr>)
       (new_manager (Some (no_attrs\<lparr>a_addresses := Some [named ''3.3.3.3-4.4.4.4'']\<rparr>)))
     = (Inr ((empty_report True)\<lparr>r_addresses := Some [''1.1.1.1''], r_address_ranges := Some []\<rparr>),
        \<lparr>mm_device = Some (no_attrs\<lparr>a_addresses := Some [named ''1.1.1.1'']\<rparr>),
         mm_calls = [CallExists, CallLoad, CallLoad,
                     CallModify \<lparr>w_addressLists = None, w_addresses = Some [named ''1.1.1.1''],
                                 w_description = None, w_fqdns = None, w_geo = None\<rparr>],
         mm_have = no_attrs\<lparr>a_addresses := Some [named ''3.3.3.3-4.4.4.4'']\<rparr>,
         mm_changes = no_changes\<lparr>c_addresses := Some [''1.1.1.1'']\<rparr>\<rparr>)"
  by code_simp

text \<open>
  Claim C3 says that the report holds the new value of every changed field, and that
  an update of the description alone reports the new description. The run below
  changes only the description: the change-set holds it, the device receives it, and
  the report holds the flag \<open>changed\<close> and no description.
\<close>

theorem description_update_report_empty:
  "exec_module sample_netaddr sample_client ((only_name ''foo'')\<lparr>p_description := Some ''new''\<rparr>)
       (new_manager (Some (no_attrs\<lparr>a_description := Some ''old''\<rparr>)))
     = (Inr (empty_report True),
        \<lparr>mm_device = Some (no_attrs\<lparr>a_description := Some ''new''\<rparr>),
         mm_calls = [CallExists, CallLoad, CallLoad,
                     CallModify \<lparr>w_addressLists = None, w_addresses = None,
                                 w_description = Some ''new'', w_fqdns = None, w_geo = None\<rparr>],
         mm_have = no_attrs\<lparr>a_description := Some ''old''\<rparr>,
         mm_changes = no_changes\<lparr>c_description := Some ''new''\<rparr>\<rparr>)
   \<and> r_description (empty_report True) = None"
  by code_simp

end
